theory Spec2Isabelle
  imports Main "HOL-Library.Word"
begin

section \<open>Data model (src/models)\<close>

text \<open>
  Document ids (MongoDB ObjectIds) are natural numbers, dates are milliseconds since the
  epoch. The string-typed amounts (\<open>rewardPerParticipant\<close>, \<open>totalFunding\<close>,
  \<open>rewardAmount\<close>, \<open>totalRewardsEarned\<close>) stay strings, as the schemas store them.
\<close>

type_synonym object_id = nat
type_synonym date = int

datatype task_type = FOLLOW_USER | LIKE_CAST | RECAST_CAST | JOIN_CHANNEL
datatype task_status = DRAFT | ACTIVE | COMPLETED | CANCELLED
datatype participant_status = PENDING | VERIFIED | CLAIMED | REJECTED

record target_data =
  userToFollow :: "string option"
  castHashToLike :: "string option"
  castHashToRecast :: "string option"
  channelToJoin :: "string option"

record requirements =
  minimumFollowers :: int
  mustBeVerified :: bool

text \<open>The array \<open>participants\<close> embedded in the Task schema (Task.js, lines 77-95);
  only the two fields a route reads are kept.\<close>

record task_participant =
  tp_user :: object_id
  tp_status :: participant_status

record task =
  t_id :: object_id
  creator :: object_id
  title :: string
  description :: string
  taskType :: task_type
  targetData :: target_data
  rewardPerParticipant :: string
  maxParticipants :: int
  currentParticipants :: int
  totalFunding :: string
  contractTaskId :: "nat option"
  t_status :: task_status
  expiresAt :: date
  tags :: "string list"
  t_requirements :: requirements
  t_participants :: "task_participant list"
  t_transactionHash :: "string option"

record proof_data =
  screenshotUrl :: "string option"
  pd_transactionHash :: "string option"
  warpcastUrl :: "string option"
  additionalNotes :: "string option"

record participant =
  p_id :: object_id
  p_user :: object_id
  p_task :: object_id
  p_status :: participant_status
  proofSubmitted :: bool
  proofData :: "proof_data option"
  verificationNotes :: "string option"
  rewardAmount :: string
  claimSignature :: "string option"
  claimedAt :: "date option"
  p_transactionHash :: "string option"

record user =
  u_id :: object_id
  fid :: nat
  walletAddress :: string
  isVerified :: bool
  totalTasksCreated :: int
  totalTasksCompleted :: int
  totalRewardsEarned :: string
  reputation :: int

text \<open>The three collections, each in insertion order.\<close>

record store =
  tasks :: "task list"
  participants :: "participant list"
  users :: "user list"

text \<open>A handler answers with an HTTP status and a message, or with its success body.\<close>

datatype failure = Failure nat string

section \<open>Store access (the Mongoose calls the routes make)\<close>

definition Task_findById :: "store \<Rightarrow> object_id \<Rightarrow> task option" where
  "Task_findById st i = find (\<lambda>t. t_id t = i) (tasks st)"

definition User_findById :: "store \<Rightarrow> object_id \<Rightarrow> user option" where
  "User_findById st i = find (\<lambda>u. u_id u = i) (users st)"

definition Participant_findById :: "store \<Rightarrow> object_id \<Rightarrow> participant option" where
  "Participant_findById st i = find (\<lambda>p. p_id p = i) (participants st)"

definition Participant_findOne :: "store \<Rightarrow> object_id \<Rightarrow> object_id \<Rightarrow> participant option" where
  "Participant_findOne st uid tid =
     find (\<lambda>p. p_user p = uid \<and> p_task p = tid) (participants st)"

text \<open>
  A new document gets an ObjectId that no document of its collection has; \<open>save()\<close> on a
  new document inserts it, \<open>save()\<close> on a loaded one writes it back under its id.
\<close>

definition fresh_id :: "object_id list \<Rightarrow> object_id" where
  "fresh_id ids = Suc (fold max ids 0)"

definition Task_insert :: "task \<Rightarrow> store \<Rightarrow> store" where
  "Task_insert t st = st\<lparr>tasks := tasks st @ [t]\<rparr>"

definition Task_save :: "task \<Rightarrow> store \<Rightarrow> store" where
  "Task_save t st = st\<lparr>tasks := map (\<lambda>x. if t_id x = t_id t then t else x) (tasks st)\<rparr>"

definition Task_findByIdAndDelete :: "object_id \<Rightarrow> store \<Rightarrow> store" where
  "Task_findByIdAndDelete i st = st\<lparr>tasks := filter (\<lambda>x. t_id x \<noteq> i) (tasks st)\<rparr>"

definition Participant_insert :: "participant \<Rightarrow> store \<Rightarrow> store" where
  "Participant_insert p st = st\<lparr>participants := participants st @ [p]\<rparr>"

definition Participant_save :: "participant \<Rightarrow> store \<Rightarrow> store" where
  "Participant_save p st =
     st\<lparr>participants := map (\<lambda>x. if p_id x = p_id p then p else x) (participants st)\<rparr>"

definition User_update :: "object_id \<Rightarrow> (user \<Rightarrow> user) \<Rightarrow> store \<Rightarrow> store" where
  "User_update i f st = st\<lparr>users := map (\<lambda>u. if u_id u = i then f u else u) (users st)\<rparr>"

text \<open>JavaScript truthiness of an optional string: \<open>undefined\<close> and \<open>''\<close> are falsy.\<close>

fun truthy :: "string option \<Rightarrow> bool" where
  "truthy None = False"
| "truthy (Some s) = (s \<noteq> [])"

section \<open>JavaScript strings, BigInt and Number\<close>

text \<open>
  A \<open>string\<close> holds the UTF-8 bytes of a JavaScript string. \<open>white_space\<close> lists the code
  points that \<open>String.prototype.trim\<close> and the numeric parsers strip (WhiteSpace and
  LineTerminator of ECMAScript), each by its UTF-8 encoding.
\<close>

definition white_space :: "string list" where
  "white_space =
     [[CHR 0x09], [CHR 0x0A], [CHR 0x0B], [CHR 0x0C], [CHR 0x0D], [CHR 0x20],
      [CHR 0xC2, CHR 0xA0], [CHR 0xE1, CHR 0x9A, CHR 0x80],
      [CHR 0xE2, CHR 0x80, CHR 0x80], [CHR 0xE2, CHR 0x80, CHR 0x81],
      [CHR 0xE2, CHR 0x80, CHR 0x82], [CHR 0xE2, CHR 0x80, CHR 0x83],
      [CHR 0xE2, CHR 0x80, CHR 0x84], [CHR 0xE2, CHR 0x80, CHR 0x85],
      [CHR 0xE2, CHR 0x80, CHR 0x86], [CHR 0xE2, CHR 0x80, CHR 0x87],
      [CHR 0xE2, CHR 0x80, CHR 0x88], [CHR 0xE2, CHR 0x80, CHR 0x89],
      [CHR 0xE2, CHR 0x80, CHR 0x8A], [CHR 0xE2, CHR 0x80, CHR 0xA8],
      [CHR 0xE2, CHR 0x80, CHR 0xA9], [CHR 0xE2, CHR 0x80, CHR 0xAF],
      [CHR 0xE2, CHR 0x81, CHR 0x9F], [CHR 0xE3, CHR 0x80, CHR 0x80],
      [CHR 0xEF, CHR 0xBB, CHR 0xBF]]"

text \<open>The rest of \<open>x\<close> behind one leading code of \<open>codes\<close>, if \<open>x\<close> starts with one.\<close>

definition strip_code :: "string list \<Rightarrow> string \<Rightarrow> string option" where
  "strip_code codes x =
     map_option (\<lambda>w. drop (length w) x) (find (\<lambda>w. w \<noteq> [] \<and> take (length w) x = w) codes)"

function trim_codes :: "string list \<Rightarrow> string \<Rightarrow> string" where
  "trim_codes codes x = (case strip_code codes x of None \<Rightarrow> x | Some r \<Rightarrow> trim_codes codes r)"
  by pat_completeness auto
termination
proof (relation "measure (\<lambda>(codes, x). length x)")
  show "wf (measure (\<lambda>(codes, x). length x))" by simp
next
  fix codes :: "string list" and x r :: string
  assume "strip_code codes x = Some r"
  then obtain w where w: "w \<noteq> []" "take (length w) x = w" "r = drop (length w) x"
    by (auto simp: strip_code_def find_Some_iff)
  from w(1,2) have "x \<noteq> []" by auto
  with w(1,3) have "length r < length x" by simp
  then show "((codes, r), (codes, x)) \<in> measure (\<lambda>(codes, x). length x)" by simp
qed

declare trim_codes.simps [simp del]

definition trim_start :: "string \<Rightarrow> string" where
  "trim_start x = trim_codes white_space x"

definition trim_end :: "string \<Rightarrow> string" where
  "trim_end x = rev (trim_codes (map rev white_space) (rev x))"

definition js_trim :: "string \<Rightarrow> string" where
  "js_trim x = trim_end (trim_start x)"

text \<open>
  \<open>x.length\<close>, the number of UTF-16 code units: one for each code point of one to three
  bytes, two for each of four bytes; continuation bytes count with their lead byte.
\<close>

definition code_units :: "char \<Rightarrow> nat" where
  "code_units b =
     (let n = (of_char b :: nat) in
      if n < 0x80 then 1 else if n < 0xC0 then 0 else if n < 0xF0 then 1 else 2)"

definition js_length :: "string \<Rightarrow> nat" where
  "js_length x = sum_list (map code_units x)"

text \<open>A string that starts and ends with a printable ASCII character is its own trim.\<close>

definition printable :: "char \<Rightarrow> bool" where
  "printable ch = (32 < (of_char ch :: nat) \<and> (of_char ch :: nat) < 128)"

definition digit_char :: "nat \<Rightarrow> char" where
  "digit_char d = ''0123456789'' ! (d mod 10)"

text \<open>The value of a digit in the radixes up to sixteen.\<close>

definition digit_of :: "char \<Rightarrow> nat option" where
  "digit_of = map_of (zip ''0123456789abcdefABCDEF''
                          [0, 1, 2, 3, 4, 5, 6, 7, 8, 9, 10, 11, 12, 13, 14, 15,
                           10, 11, 12, 13, 14, 15])"

text \<open>\<open>toString()\<close> of a non-negative integer, and of a BigInt of either sign.\<close>

function toString :: "nat \<Rightarrow> string" where
  "toString n = (if n < 10 then [digit_char n] else toString (n div 10) @ [digit_char (n mod 10)])"
  by pat_completeness auto
termination
  by (relation "measure (\<lambda>n. n)") auto

declare toString.simps [simp del]

definition toString_bigint :: "int \<Rightarrow> string" where
  "toString_bigint i = (if i < 0 then CHR ''-'' # toString (nat (- i)) else toString (nat i))"

fun parse_digits :: "nat \<Rightarrow> nat \<Rightarrow> string \<Rightarrow> nat option" where
  "parse_digits radix acc [] = Some acc"
| "parse_digits radix acc (c # cs) =
     (case digit_of c of
        None \<Rightarrow> None
      | Some d \<Rightarrow> if d < radix then parse_digits radix (radix * acc + d) cs else None)"

text \<open>One digit at least, and digits of the radix only.\<close>

definition digits :: "nat \<Rightarrow> string \<Rightarrow> nat option" where
  "digits radix x = (if x = [] then None else parse_digits radix 0 x)"

text \<open>
  \<open>BigInt(x)\<close> of a string (StringToBigInt): white space is trimmed on both sides; nothing
  left is \<open>0n\<close>; then a \<open>0x\<close>, \<open>0o\<close> or \<open>0b\<close> literal (either case of the letter), or decimal
  digits behind an optional sign. \<open>None\<close> is the SyntaxError.
\<close>

definition BigInt :: "string \<Rightarrow> int option" where
  "BigInt x =
     (let t = js_trim x in
      if t = [] then Some 0
      else if take 2 t = ''0x'' \<or> take 2 t = ''0X'' then map_option int (digits 16 (drop 2 t))
      else if take 2 t = ''0o'' \<or> take 2 t = ''0O'' then map_option int (digits 8 (drop 2 t))
      else if take 2 t = ''0b'' \<or> take 2 t = ''0B'' then map_option int (digits 2 (drop 2 t))
      else if take 1 t = ''-'' then map_option (\<lambda>n. - int n) (digits 10 (drop 1 t))
      else if take 1 t = ''+'' then map_option int (digits 10 (drop 1 t))
      else map_option int (digits 10 t))"

text \<open>
  The Number nearest to a non-negative integer below \<open>2 ^ 1024\<close>: itself below \<open>2 ^ 53\<close>,
  and beyond that rounded to 53 significant bits, ties to the even significand.
\<close>

function bit_count :: "nat \<Rightarrow> nat" where
  "bit_count n = (if n = 0 then 0 else Suc (bit_count (n div 2)))"
  by pat_completeness auto
termination
  by (relation "measure (\<lambda>n. n)") auto

declare bit_count.simps [simp del]

definition to_Number :: "nat \<Rightarrow> nat" where
  "to_Number n =
     (if n < 2 ^ 53 then n
      else let e = bit_count n - 53; q = n div 2 ^ e; r = n mod 2 ^ e; half = 2 ^ (e - 1)
           in (if half < r \<or> (r = half \<and> odd q) then q + 1 else q) * 2 ^ e)"

section \<open>The identity provider (SnapchainService)\<close>

text \<open>
  One HTTP exchange with the provider: \<open>HttpFailed\<close> is axios throwing (transport error,
  non-2xx status, or a body without \<open>data\<close>), \<open>HttpOk v\<close> is the field the service reads
  from \<open>response.data\<close>, \<open>None\<close> when that field is absent.
\<close>

datatype 'a http = HttpFailed | HttpOk 'a

text \<open>
  A user object of the provider; \<open>fid\<close> may be missing from it. In a list an entry is
  \<open>None\<close> when reading its \<open>fid\<close> throws: the entry itself, or the \<open>user\<close> of a like or
  recast, is \<open>null\<close> or \<open>undefined\<close>.
\<close>

record fc_user =
  fc_fid :: "nat option"
  follower_count :: nat

type_synonym entry = "fc_user option"

record snapchain =
  api_user_by_username :: "string \<Rightarrow> fc_user option http"
  api_user :: "nat \<Rightarrow> fc_user option http"
  api_cast :: "string \<Rightarrow> bool http"
  api_cast_likes :: "string \<Rightarrow> nat \<Rightarrow> entry list option http"
  api_cast_recasts :: "string \<Rightarrow> nat \<Rightarrow> entry list option http"
  api_user_following :: "nat \<Rightarrow> nat \<Rightarrow> entry list option http"
  api_channel_members :: "string \<Rightarrow> nat \<Rightarrow> entry list option http"
  api_channel_followers :: "string \<Rightarrow> nat \<Rightarrow> entry list option http"

definition getUserByUsername :: "snapchain \<Rightarrow> string \<Rightarrow> fc_user option" where
  "getUserByUsername api username =
     (case api_user_by_username api username of HttpFailed \<Rightarrow> None | HttpOk u \<Rightarrow> u)"

definition getUserByFid :: "snapchain \<Rightarrow> nat \<Rightarrow> fc_user option" where
  "getUserByFid api f = (case api_user api f of HttpFailed \<Rightarrow> None | HttpOk u \<Rightarrow> u)"

text \<open>\<open>getCast\<close> is only ever tested for truthiness: \<open>True\<close> is a cast, \<open>False\<close> none.\<close>

definition getCast :: "snapchain \<Rightarrow> string \<Rightarrow> bool" where
  "getCast api h = (case api_cast api h of HttpFailed \<Rightarrow> False | HttpOk c \<Rightarrow> c)"

fun or_empty :: "'a list option http \<Rightarrow> 'a list" where
  "or_empty HttpFailed = []"
| "or_empty (HttpOk None) = []"
| "or_empty (HttpOk (Some xs)) = xs"

definition getCastLikes :: "snapchain \<Rightarrow> string \<Rightarrow> nat \<Rightarrow> entry list" where
  "getCastLikes api h limit = or_empty (api_cast_likes api h limit)"

definition getCastRecasts :: "snapchain \<Rightarrow> string \<Rightarrow> nat \<Rightarrow> entry list" where
  "getCastRecasts api h limit = or_empty (api_cast_recasts api h limit)"

definition getUserFollowing :: "snapchain \<Rightarrow> nat \<Rightarrow> nat \<Rightarrow> entry list" where
  "getUserFollowing api f limit = or_empty (api_user_following api f limit)"

definition getChannelMembers :: "snapchain \<Rightarrow> string \<Rightarrow> nat \<Rightarrow> entry list" where
  "getChannelMembers api c limit = or_empty (api_channel_members api c limit)"

definition getChannelFollowers :: "snapchain \<Rightarrow> string \<Rightarrow> nat \<Rightarrow> entry list" where
  "getChannelFollowers api c limit = or_empty (api_channel_followers api c limit)"

text \<open>
  \<open>xs.some(x => x.fid === v)\<close>: left to right, stopping at the first match; \<open>None\<close> is the
  TypeError at an entry whose \<open>fid\<close> cannot be read. \<open>v\<close> is \<open>None\<close> for \<open>undefined\<close>, and
  \<open>undefined === undefined\<close> holds.
\<close>

fun some_fid :: "nat option \<Rightarrow> entry list \<Rightarrow> bool option" where
  "some_fid v [] = Some False"
| "some_fid v (None # xs) = None"
| "some_fid v (Some u # xs) = (if fc_fid u = v then Some True else some_fid v xs)"

text \<open>The \<open>catch\<close> of each verification method: an exception is \<open>false\<close>.\<close>

fun caught :: "bool option \<Rightarrow> bool" where
  "caught None = False"
| "caught (Some b) = b"

definition verifyUserFollowsUser :: "snapchain \<Rightarrow> nat \<Rightarrow> string \<Rightarrow> bool" where
  "verifyUserFollowsUser api userFid targetUsername =
     (case getUserByUsername api targetUsername of
        None \<Rightarrow> False
      | Some targetUser \<Rightarrow>
          caught (some_fid (fc_fid targetUser) (getUserFollowing api userFid 1000)))"

definition verifyCastLike :: "snapchain \<Rightarrow> nat \<Rightarrow> string \<Rightarrow> bool" where
  "verifyCastLike api userFid castHash =
     caught (some_fid (Some userFid) (getCastLikes api castHash 1000))"

definition verifyCastRecast :: "snapchain \<Rightarrow> nat \<Rightarrow> string \<Rightarrow> bool" where
  "verifyCastRecast api userFid castHash =
     caught (some_fid (Some userFid) (getCastRecasts api castHash 1000))"

text \<open>
  The members are fetched and searched first, then the followers: an exception in either
  search ends the method in its \<open>catch\<close>, whatever the other search found.
\<close>

definition verifyChannelMembership :: "snapchain \<Rightarrow> nat \<Rightarrow> string \<Rightarrow> bool" where
  "verifyChannelMembership api userFid channelId =
     caught
       (case some_fid (Some userFid) (getChannelMembers api channelId 1000) of
          None \<Rightarrow> None
        | Some isMember \<Rightarrow>
            (case some_fid (Some userFid) (getChannelFollowers api channelId 1000) of
               None \<Rightarrow> None
             | Some isFollower \<Rightarrow> Some (isMember \<or> isFollower)))"

section \<open>Participant routes (src/routes/participants.js)\<close>

subsection \<open>POST /join/:taskId\<close>

definition new_participant :: "object_id \<Rightarrow> object_id \<Rightarrow> object_id \<Rightarrow> participant" where
  "new_participant i uid tid =
     \<lparr>p_id = i, p_user = uid, p_task = tid, p_status = PENDING, proofSubmitted = False,
      proofData = None, verificationNotes = None, rewardAmount = ''0'',
      claimSignature = None, claimedAt = None, p_transactionHash = None\<rparr>"

text \<open>
  \<open>userId\<close> is \<open>req.user.userId\<close>, set by the auth middleware; \<open>now\<close> is \<open>new Date()\<close>.
  A \<open>user\<close> that \<open>User.findById\<close> does not find is \<open>null\<close>, and reading a field of it
  throws into the handler's \<open>catch\<close> (status 500); each \<open>the u\<close> below stands behind the
  branch that has answered 500 for \<open>u = None\<close>.
\<close>

definition join :: "snapchain \<Rightarrow> date \<Rightarrow> object_id \<Rightarrow> object_id \<Rightarrow> store
                     \<Rightarrow> (failure + participant) \<times> store" where
  "join api now userId taskId st =
     (case Task_findById st taskId of
        None \<Rightarrow> (Inl (Failure 404 ''Task not found''), st)
      | Some t \<Rightarrow>
          if t_status t \<noteq> ACTIVE then (Inl (Failure 400 ''Task is not active''), st)
          else if currentParticipants t \<ge> maxParticipants t
            then (Inl (Failure 400 ''Task is full''), st)
          else if now > expiresAt t then (Inl (Failure 400 ''Task has expired''), st)
          else
            (case Participant_findOne st userId taskId of
               Some existingParticipant \<Rightarrow>
                 (Inl (Failure 400 ''Already joined this task''), st)
             | None \<Rightarrow>
                 let u = User_findById st userId;
                     req = t_requirements t
                 in
                 if mustBeVerified req \<and> u = None then (Inl (Failure 500 ''TypeError''), st)
                 else if mustBeVerified req \<and> \<not> isVerified (the u)
                   then (Inl (Failure 400 ''Must be verified to join this task''), st)
                 else if minimumFollowers req > 0 \<and> u = None
                   then (Inl (Failure 500 ''TypeError''), st)
                 else if minimumFollowers req > 0 \<and>
                         (case getUserByFid api (fid (the u)) of
                            None \<Rightarrow> True
                          | Some farcasterUser \<Rightarrow>
                              int (follower_count farcasterUser) < minimumFollowers req)
                   then (Inl (Failure 400 (''Must have at least '' @
                           toString (nat (minimumFollowers req)) @ '' followers'')), st)
                 else
                   let p = new_participant (fresh_id (map p_id (participants st))) userId taskId;
                       st1 = Participant_insert p st;
                       st2 = Task_save (t\<lparr>currentParticipants := currentParticipants t + 1\<rparr>) st1
                   in (Inr p, st2)))"

section \<open>The reward contract (ContractService)\<close>

text \<open>
  What the chain answers during one request; \<open>None\<close> is a call that throws. The signer is
  the backend wallet: \<open>signMessage\<close> over the packed hash of
  \<open>(taskId, developerAddress, rewardAmount)\<close>, a function of that triple. The task id of
  the \<open>TaskCreated\<close> event is a \<open>uint256\<close>; the service hands it on as its decimal string
  (\<open>parsed.args.taskId.toString()\<close>), which \<open>cr_taskId\<close> stands for.
\<close>

record receipt =
  rc_hash :: string
  rc_blockNumber :: nat
  rc_gasUsed :: nat
  rc_taskCreated :: "256 word option"

record contract =
  getBalance :: "nat option"
  estimateGas :: "int \<Rightarrow> nat \<Rightarrow> nat option"
  sendCreateTask :: "int \<Rightarrow> nat \<Rightarrow> nat \<Rightarrow> receipt option"
  hasDevClaimed :: "nat option \<Rightarrow> string \<Rightarrow> bool option"
  signMessage :: "nat option \<Rightarrow> string \<Rightarrow> string \<Rightarrow> string option"

record create_result =
  cr_taskId :: "256 word"
  cr_transactionHash :: string
  cr_blockNumber :: nat
  cr_gasUsed :: string

text \<open>
  \<open>createTaskOnChain(maxParticipants, totalFundingEth)\<close>; \<open>requiredAmount\<close> is
  \<open>ethers.parseEther(totalFundingEth.toString())\<close> in wei. \<open>Inl\<close> is the rethrown error.
\<close>

definition createTaskOnChain :: "contract \<Rightarrow> int \<Rightarrow> nat \<Rightarrow> string + create_result" where
  "createTaskOnChain c maxP requiredAmount =
     (case getBalance c of
        None \<Rightarrow> Inl ''getBalance failed''
      | Some balance \<Rightarrow>
          if balance < requiredAmount then Inl ''Insufficient balance''
          else
            (case estimateGas c maxP requiredAmount of
               None \<Rightarrow> Inl ''estimateGas failed''
             | Some gasEstimate \<Rightarrow>
                 (case sendCreateTask c maxP requiredAmount (gasEstimate * 120 div 100) of
                    None \<Rightarrow> Inl ''transaction failed''
                  | Some r \<Rightarrow>
                      (case rc_taskCreated r of
                         Some taskId \<Rightarrow>
                           Inr \<lparr>cr_taskId = taskId, cr_transactionHash = rc_hash r,
                                cr_blockNumber = rc_blockNumber r,
                                cr_gasUsed = toString (rc_gasUsed r)\<rparr>
                       | None \<Rightarrow> Inl ''TaskCreated event not found''))))"

definition generateClaimSignature :: "contract \<Rightarrow> nat option \<Rightarrow> string \<Rightarrow> string \<Rightarrow> string option" where
  "generateClaimSignature c taskId developerAddress amount =
     signMessage c taskId developerAddress amount"

definition hasUserClaimed :: "contract \<Rightarrow> nat option \<Rightarrow> string \<Rightarrow> bool option" where
  "hasUserClaimed c taskId userAddress = hasDevClaimed c taskId userAddress"

section \<open>Gas sponsorship (SponsoredGasService)\<close>

record user_operation =
  sender :: string
  nonce :: string
  initCode :: string
  callData :: string
  callGasLimit :: "string option"
  verificationGasLimit :: "string option"
  preVerificationGas :: "string option"
  maxFeePerGas :: "string option"
  maxPriorityFeePerGas :: "string option"
  paymasterAndData :: "string option"
  uo_signature :: string

text \<open>\<open>response.data.result\<close> of the paymaster: each field is there or \<open>undefined\<close>.\<close>

record paymaster_data =
  pm_callGasLimit :: "string option"
  pm_verificationGasLimit :: "string option"
  pm_preVerificationGas :: "string option"
  pm_maxFeePerGas :: "string option"
  pm_maxPriorityFeePerGas :: "string option"
  pm_paymasterAndData :: "string option"

text \<open>
  The paymaster's answer: the POST throws, or a body arrives with its \<open>error\<close> field
  (truthy or not) and its \<open>result\<close> (\<open>None\<close> when absent or falsy).
\<close>

datatype paymaster_response = PmThrows | PmBody bool "paymaster_data option"

record sponsor =
  enabled :: bool
  entryPointAddress :: string
  encodeClaimReward :: "nat option \<Rightarrow> string \<Rightarrow> string \<Rightarrow> string option"
  paymaster :: "user_operation \<Rightarrow> paymaster_response"

definition getPaymasterAndData :: "sponsor \<Rightarrow> user_operation \<Rightarrow> paymaster_data option" where
  "getPaymasterAndData s userOp =
     (if \<not> enabled s then None
      else case paymaster s userOp of
             PmThrows \<Rightarrow> None
           | PmBody err res \<Rightarrow> if err then None else res)"

definition createUserOperation :: "string \<Rightarrow> string \<Rightarrow> user_operation" where
  "createUserOperation sndr cd =
     \<lparr>sender = sndr, nonce = ''0x0'', initCode = ''0x'', callData = cd,
      callGasLimit = Some ''0x0'', verificationGasLimit = Some ''0x0'',
      preVerificationGas = Some ''0x0'', maxFeePerGas = Some ''0x0'',
      maxPriorityFeePerGas = Some ''0x0'', paymasterAndData = Some ''0x'',
      uo_signature =
        ''0x0000000000000000000000000000000000000000000000000000000000000020000000000000000000000000000000000000000000000000000000000000000000000000000000000000000000000000000000000000000000000000000000400000000000000000000000000000000000000000000000000000000000000041fffffffffffffffffffffffffffffff0000000000000000000000000000000007aaaaaaaaaaaaaaaaaaaaaaaaaaaaaaaaaaaaaaaaaaaaaaaaaaaaaaaaaaaaaaa1c00000000000000000000000000000000000000000000000000000000000000''\<rparr>"

datatype sponsored_data =
    Sponsored user_operation string
  | NotSponsored "string option" "string option"

fun is_sponsored :: "sponsored_data \<Rightarrow> bool" where
  "is_sponsored (Sponsored uo ep) = True"
| "is_sponsored (NotSponsored m e) = False"

definition prepareSponsoredClaim ::
  "sponsor \<Rightarrow> string \<Rightarrow> nat option \<Rightarrow> string \<Rightarrow> string \<Rightarrow> string \<Rightarrow> sponsored_data" where
  "prepareSponsoredClaim s contractAddress taskId amount signature userAddress =
     (if \<not> enabled s then NotSponsored (Some ''Sponsored gas not enabled'') None
      else
        (case encodeClaimReward s taskId amount signature of
           None \<Rightarrow> NotSponsored None (Some ''encodeFunctionData failed'')
         | Some cd \<Rightarrow>
             let userOp = createUserOperation userAddress cd in
             (case getPaymasterAndData s userOp of
                Some paymasterData \<Rightarrow>
                  Sponsored
                    (userOp\<lparr>callGasLimit := pm_callGasLimit paymasterData,
                            verificationGasLimit := pm_verificationGasLimit paymasterData,
                            preVerificationGas := pm_preVerificationGas paymasterData,
                            maxFeePerGas := pm_maxFeePerGas paymasterData,
                            maxPriorityFeePerGas := pm_maxPriorityFeePerGas paymasterData,
                            paymasterAndData := pm_paymasterAndData paymasterData\<rparr>)
                    (entryPointAddress s)
              | None \<Rightarrow>
                  NotSponsored (Some ''Paymaster not available for this transaction'') None)))"

section \<open>Participant routes, continued\<close>

subsection \<open>autoVerifyTask\<close>

text \<open>
  \<open>participant.task\<close> is the populated task (\<open>null\<close> when the task is gone) and \<open>user\<close>
  the result of \<open>User.findById\<close>; reading a field of \<open>null\<close> throws, and the function's
  \<open>catch\<close> answers \<open>{verified: false}\<close>.
\<close>

definition autoVerifyTask :: "snapchain \<Rightarrow> store \<Rightarrow> participant \<Rightarrow> bool" where
  "autoVerifyTask api st p =
     (case Task_findById st (p_task p) of
        None \<Rightarrow> False
      | Some t \<Rightarrow>
          let u = User_findById st (p_user p); td = targetData t in
          (case taskType t of
             FOLLOW_USER \<Rightarrow>
               (if truthy (userToFollow td)
                then (case u of None \<Rightarrow> False
                      | Some usr \<Rightarrow> verifyUserFollowsUser api (fid usr) (the (userToFollow td)))
                else False)
           | LIKE_CAST \<Rightarrow>
               (if truthy (castHashToLike td)
                then (case u of None \<Rightarrow> False
                      | Some usr \<Rightarrow> verifyCastLike api (fid usr) (the (castHashToLike td)))
                else False)
           | RECAST_CAST \<Rightarrow>
               (if truthy (castHashToRecast td)
                then (case u of None \<Rightarrow> False
                      | Some usr \<Rightarrow> verifyCastRecast api (fid usr) (the (castHashToRecast td)))
                else False)
           | JOIN_CHANNEL \<Rightarrow>
               (if truthy (channelToJoin td)
                then (case u of None \<Rightarrow> False
                      | Some usr \<Rightarrow> verifyChannelMembership api (fid usr) (the (channelToJoin td)))
                else False)))"

subsection \<open>POST /submit-proof/:taskId\<close>

text \<open>
  \<open>pd\<close> is \<open>req.body.proofData\<close>, \<open>None\<close> when the \<open>notEmpty\<close> validator rejects it. The
  success body carries the participant as last saved and the \<open>autoVerified\<close> flag.
\<close>

definition submit_proof :: "snapchain \<Rightarrow> object_id \<Rightarrow> object_id \<Rightarrow> proof_data option \<Rightarrow> store
                             \<Rightarrow> (failure + participant \<times> bool) \<times> store" where
  "submit_proof api userId taskId pd st =
     (case pd of
        None \<Rightarrow> (Inl (Failure 400 ''Proof data is required''), st)
      | Some d \<Rightarrow>
          (case Participant_findOne st userId taskId of
             None \<Rightarrow> (Inl (Failure 404 ''Participant not found''), st)
           | Some p \<Rightarrow>
               if p_status p \<noteq> PENDING
               then (Inl (Failure 400 ''Cannot submit proof for this participant status''), st)
               else
                 let p1 = p\<lparr>proofSubmitted := True, proofData := Some d\<rparr>;
                     st1 = Participant_save p1 st;
                     verified = autoVerifyTask api st1 p1
                 in if verified
                    then
                      let p2 = p1\<lparr>p_status := VERIFIED,
                                  verificationNotes := Some ''Auto-verified via Snapchain API''\<rparr>
                      in (Inr (p2, verified), Participant_save p2 st1)
                    else (Inr (p1, verified), st1)))"

subsection \<open>POST /claim/:taskId\<close>

datatype sponsored_gas =
    GasEnabled user_operation string
  | GasFallback string string

record claim_response =
  cl_signature :: string
  cl_taskId :: "nat option"
  cl_rewardAmount :: string
  cl_contractAddress :: string
  cl_sponsoredGas :: sponsored_gas

fun sponsoredGas_of :: "sponsored_data \<Rightarrow> sponsored_gas" where
  "sponsoredGas_of (Sponsored uo ep) = GasEnabled uo ep"
| "sponsoredGas_of (NotSponsored msg err) =
     GasFallback (if truthy msg then the msg else ''Regular gas payment required'')
                 ''You will need ETH for gas fees''"

text \<open>\<open>contractAddress\<close> is \<open>process.env.CONTRACT_ADDRESS\<close>.\<close>

definition claim :: "contract \<Rightarrow> sponsor \<Rightarrow> string \<Rightarrow> object_id \<Rightarrow> object_id \<Rightarrow> store
                      \<Rightarrow> (failure + claim_response) \<times> store" where
  "claim c s contractAddress userId taskId st =
     (case Participant_findOne st userId taskId of
        None \<Rightarrow> (Inl (Failure 404 ''Participant not found''), st)
      | Some p \<Rightarrow>
          if p_status p \<noteq> VERIFIED then (Inl (Failure 400 ''Task not verified yet''), st)
          else if claimedAt p \<noteq> None then (Inl (Failure 400 ''Reward already claimed''), st)
          else
            (case Task_findById st (p_task p) of
               None \<Rightarrow> (Inl (Failure 500 ''TypeError''), st)
             | Some t \<Rightarrow>
                 (case User_findById st (p_user p) of
                    None \<Rightarrow> (Inl (Failure 500 ''TypeError''), st)
                  | Some u \<Rightarrow>
                      (case hasUserClaimed c (contractTaskId t) (walletAddress u) of
                         None \<Rightarrow> (Inl (Failure 500 ''hasDevClaimed failed''), st)
                       | Some True \<Rightarrow>
                           (Inl (Failure 400 ''Reward already claimed on blockchain''), st)
                       | Some False \<Rightarrow>
                           (case generateClaimSignature c (contractTaskId t) (walletAddress u)
                                   (rewardPerParticipant t) of
                              None \<Rightarrow> (Inl (Failure 500 ''signMessage failed''), st)
                            | Some signature \<Rightarrow>
                                let sponsoredData =
                                      prepareSponsoredClaim s contractAddress (contractTaskId t)
                                        (rewardPerParticipant t) signature (walletAddress u);
                                    p1 = p\<lparr>claimSignature := Some signature,
                                           rewardAmount := rewardPerParticipant t\<rparr>;
                                    st1 = Participant_save p1 st
                                in (Inr \<lparr>cl_signature = signature,
                                         cl_taskId = contractTaskId t,
                                         cl_rewardAmount = rewardPerParticipant t,
                                         cl_contractAddress = contractAddress,
                                         cl_sponsoredGas = sponsoredGas_of sponsoredData\<rparr>,
                                    st1))))))"

subsection \<open>POST /confirm-claim/:taskId\<close>

text \<open>
  The route declares the validator \<open>body('transactionHash').notEmpty()\<close> but never reads
  \<open>validationResult(req)\<close>, so \<open>txHash\<close> is whatever the body holds (\<open>None\<close> when absent).
  The participant is saved as CLAIMED before the user's counters are computed: a missing
  user or an amount that \<open>BigInt\<close> rejects throws after that save (status 500).
\<close>

definition confirm_claim :: "date \<Rightarrow> object_id \<Rightarrow> object_id \<Rightarrow> string option \<Rightarrow> store
                              \<Rightarrow> (failure + participant) \<times> store" where
  "confirm_claim now userId taskId txHash st =
     (case Participant_findOne st userId taskId of
        None \<Rightarrow> (Inl (Failure 404 ''Participant not found''), st)
      | Some p \<Rightarrow>
          let u = User_findById st userId;
              p1 = p\<lparr>p_status := CLAIMED, claimedAt := Some now, p_transactionHash := txHash\<rparr>;
              st1 = Participant_save p1 st
          in
          (case u of
             None \<Rightarrow> (Inl (Failure 500 ''TypeError''), st1)
           | Some usr \<Rightarrow>
               (case BigInt (if totalRewardsEarned usr = [] then ''0''
                             else totalRewardsEarned usr) of
                  None \<Rightarrow> (Inl (Failure 500 ''SyntaxError''), st1)
                | Some earned \<Rightarrow>
                    (case BigInt (rewardAmount p1) of
                       None \<Rightarrow> (Inl (Failure 500 ''SyntaxError''), st1)
                     | Some reward \<Rightarrow>
                         (Inr p1,
                          User_update userId
                            (\<lambda>x. x\<lparr>totalTasksCompleted := totalTasksCompleted x + 1,
                                   reputation := reputation x + 10,
                                   totalRewardsEarned := toString_bigint (earned + reward)\<rparr>)
                            st1)))))"

subsection \<open>POST /verify/:participantId\<close>

text \<open>
  Here too the validators (\<open>isBoolean\<close>, \<open>isString\<close>) are declared and their result is never
  read. \<open>approved\<close> is the truthiness of \<open>req.body.approved\<close>, which the handler tests
  with \<open>approved ? 'VERIFIED' : 'REJECTED'\<close>.
\<close>

definition verify :: "object_id \<Rightarrow> object_id \<Rightarrow> bool \<Rightarrow> string option \<Rightarrow> store
                       \<Rightarrow> (failure + participant) \<times> store" where
  "verify userId participantId approved notes st =
     (case Participant_findById st participantId of
        None \<Rightarrow> (Inl (Failure 404 ''Participant not found''), st)
      | Some p \<Rightarrow>
          (case Task_findById st (p_task p) of
             None \<Rightarrow> (Inl (Failure 500 ''TypeError''), st)
           | Some t \<Rightarrow>
               if creator t \<noteq> userId then (Inl (Failure 403 ''Not authorized''), st)
               else if p_status p \<noteq> PENDING
                 then (Inl (Failure 400 ''Participant not in pending status''), st)
               else
                 let p1 = p\<lparr>p_status := (if approved then VERIFIED else REJECTED),
                            verificationNotes :=
                              Some (if truthy notes then the notes else [])\<rparr>
                 in (Inr p1, Participant_save p1 st)))"

subsection \<open>POST /re-verify/:participantId\<close>

definition re_verify :: "snapchain \<Rightarrow> object_id \<Rightarrow> object_id \<Rightarrow> store
                          \<Rightarrow> (failure + participant \<times> bool) \<times> store" where
  "re_verify api userId participantId st =
     (case Participant_findById st participantId of
        None \<Rightarrow> (Inl (Failure 404 ''Participant not found''), st)
      | Some p \<Rightarrow>
          (case Task_findById st (p_task p) of
             None \<Rightarrow> (Inl (Failure 500 ''TypeError''), st)
           | Some t \<Rightarrow>
               if creator t \<noteq> userId then (Inl (Failure 403 ''Not authorized''), st)
               else
                 let verified = autoVerifyTask api st p in
                 if verified
                 then
                   let p1 = p\<lparr>p_status := VERIFIED,
                              verificationNotes := Some ''Re-verified via Snapchain API''\<rparr>
                   in (Inr (p1, verified), Participant_save p1 st)
                 else (Inr (p, verified), st)))"

section \<open>Task routes (src/routes/tasks.js)\<close>

text \<open>
  The request body of task creation. A field the validators reject is \<open>None\<close>
  (\<open>rq_taskType\<close>, \<open>rq_maxParticipants\<close>, \<open>rq_expiresAt\<close>); an absent optional field is
  \<open>None\<close> too. \<open>rq_rewardPerParticipant\<close> is a reward the caller may send along: the
  handler never reads it.
\<close>

record requirements_input =
  ri_minimumFollowers :: "int option"
  ri_mustBeVerified :: "bool option"

record create_request =
  rq_title :: string
  rq_description :: string
  rq_taskType :: "task_type option"
  rq_targetData :: "target_data option"
  rq_maxParticipants :: "int option"
  rq_expiresAt :: "date option"
  rq_tags :: "string list option"
  rq_requirements :: "requirements_input option"
  rq_rewardPerParticipant :: "string option"

definition requirements_of :: "requirements_input option \<Rightarrow> requirements" where
  "requirements_of r =
     (case r of
        None \<Rightarrow> \<lparr>minimumFollowers = 0, mustBeVerified = False\<rparr>
      | Some i \<Rightarrow>
          \<lparr>minimumFollowers = (case ri_minimumFollowers i of None \<Rightarrow> 0 | Some n \<Rightarrow> n),
           mustBeVerified = (case ri_mustBeVerified i of None \<Rightarrow> False | Some b \<Rightarrow> b)\<rparr>)"

text \<open>The express-validator chain of \<open>POST /\<close>: the fields the handler goes on with.\<close>

definition validate_create :: "create_request \<Rightarrow> (task_type \<times> int \<times> date) option" where
  "validate_create rq =
     (if rq_title rq = [] \<or> rq_description rq = [] then None
      else case rq_taskType rq of
             None \<Rightarrow> None
           | Some tt \<Rightarrow>
               (case rq_maxParticipants rq of
                  None \<Rightarrow> None
                | Some n \<Rightarrow>
                    if n < 1 \<or> 1000 < n then None
                    else (case rq_expiresAt rq of
                            None \<Rightarrow> None
                          | Some e \<Rightarrow> Some (tt, n, e))))"

text \<open>The \<open>switch\<close> on the task type: the \<open>validationError\<close> it leaves, if any.\<close>

definition target_error :: "snapchain \<Rightarrow> task_type \<Rightarrow> target_data \<Rightarrow> string option" where
  "target_error api tt td =
     (case tt of
        FOLLOW_USER \<Rightarrow>
          (if \<not> truthy (userToFollow td) then Some ''User to follow is required''
           else if getUserByUsername api (the (userToFollow td)) = None
             then Some ''Target user not found on Farcaster''
           else None)
      | LIKE_CAST \<Rightarrow>
          (if \<not> truthy (castHashToLike td) then Some ''Cast hash to like is required''
           else if \<not> getCast api (the (castHashToLike td)) then Some ''Cast not found''
           else None)
      | RECAST_CAST \<Rightarrow>
          (if \<not> truthy (castHashToRecast td) then Some ''Cast hash to recast is required''
           else if \<not> getCast api (the (castHashToRecast td)) then Some ''Cast not found''
           else None)
      | JOIN_CHANNEL \<Rightarrow>
          (if \<not> truthy (channelToJoin td) then Some ''Channel to join is required''
           else None))"

text \<open>
  The schema validation that \<open>task.save()\<close> runs (Task.js): required, maxlength (on
  \<open>length\<close>, in UTF-16 code units), min and max.
\<close>

definition schema_valid :: "task \<Rightarrow> bool" where
  "schema_valid t =
     (title t \<noteq> [] \<and> js_length (title t) \<le> 100 \<and>
      description t \<noteq> [] \<and> js_length (description t) \<le> 500 \<and>
      1 \<le> maxParticipants t \<and> maxParticipants t \<le> 1000)"

subsection \<open>POST / (create)\<close>

text \<open>
  \<open>totalFundingEth\<close> is \<open>parseFloat(totalFunding) / 1e18\<close>, and the contract service turns
  it back into wei with \<open>parseEther(totalFundingEth.toString())\<close>. For the validated
  range 1..1000 of \<open>maxParticipants\<close> that round trip is exact (the value is a multiple
  of 0.001 with at most four significant digits), so the amount escrowed is the integer
  \<open>totalFunding\<close> itself. The route stores \<open>parseInt\<close> of the task id's decimal string,
  a Number: the id rounded by \<open>to_Number\<close>.
\<close>

text \<open>The document that \<open>new Task({...})\<close> builds, with the schema defaults.\<close>

definition draft_task :: "object_id \<Rightarrow> object_id \<Rightarrow> create_request \<Rightarrow> task_type \<Rightarrow> target_data
                           \<Rightarrow> int \<Rightarrow> date \<Rightarrow> string \<Rightarrow> string \<Rightarrow> task" where
  "draft_task i userId rq tt td maxP expires reward funding =
     \<lparr>t_id = i, creator = userId, title = js_trim (rq_title rq),
      description = rq_description rq, taskType = tt, targetData = td,
      rewardPerParticipant = reward, maxParticipants = maxP, currentParticipants = 0,
      totalFunding = funding, contractTaskId = None, t_status = DRAFT, expiresAt = expires,
      tags = (case rq_tags rq of None \<Rightarrow> [] | Some ts \<Rightarrow> map js_trim ts),
      t_requirements = requirements_of (rq_requirements rq),
      t_participants = [], t_transactionHash = None\<rparr>"

definition create_task :: "snapchain \<Rightarrow> contract \<Rightarrow> object_id \<Rightarrow> create_request \<Rightarrow> store
                            \<Rightarrow> (failure + task \<times> create_result) \<times> store" where
  "create_task api c userId rq st =
     (case validate_create rq of
        None \<Rightarrow> (Inl (Failure 400 ''validation errors''), st)
      | Some (tt, maxP, expires) \<Rightarrow>
          (case rq_targetData rq of
             None \<Rightarrow> (Inl (Failure 500 ''TypeError''), st)
           | Some td \<Rightarrow>
               (case target_error api tt td of
                  Some validationError \<Rightarrow> (Inl (Failure 400 validationError), st)
                | None \<Rightarrow>
                    let reward = ''1000000000000000'' in
                    (case BigInt reward of
                       None \<Rightarrow> (Inl (Failure 500 ''SyntaxError''), st)
                     | Some r \<Rightarrow>
                         let funding = r * maxP;
                             t = draft_task (fresh_id (map t_id (tasks st))) userId rq tt td
                                   maxP expires reward (toString_bigint funding)
                         in
                         if \<not> schema_valid t then (Inl (Failure 500 ''ValidationError''), st)
                         else
                           let st1 = Task_insert t st in
                           (case createTaskOnChain c maxP (nat funding) of
                              Inr contractResult \<Rightarrow>
                                let t1 = t\<lparr>contractTaskId :=
                                             Some (to_Number (unat (cr_taskId contractResult))),
                                           t_transactionHash :=
                                             Some (cr_transactionHash contractResult),
                                           t_status := ACTIVE\<rparr>;
                                    st2 = Task_save t1 st1;
                                    st3 = User_update userId
                                            (\<lambda>x. x\<lparr>totalTasksCreated := totalTasksCreated x + 1\<rparr>)
                                            st2
                                in (Inr (t1, contractResult), st3)
                            | Inl contractError \<Rightarrow>
                                (Inl (Failure 500 ''Failed to create task on blockchain''),
                                 Task_findByIdAndDelete (t_id t) st1))))))"

subsection \<open>PUT /:id (update)\<close>

record update_request =
  up_title :: "string option"
  up_description :: "string option"
  up_expiresAt :: "date option"
  up_tags :: "string list option"
  up_requirements :: "requirements_input option"

definition update_task :: "object_id \<Rightarrow> object_id \<Rightarrow> update_request \<Rightarrow> store
                            \<Rightarrow> (failure + task) \<times> store" where
  "update_task userId taskId rq st =
     (case Task_findById st taskId of
        None \<Rightarrow> (Inl (Failure 404 ''Task not found''), st)
      | Some t \<Rightarrow>
          if creator t \<noteq> userId then (Inl (Failure 403 ''Not authorized''), st)
          else if t_status t \<noteq> DRAFT then (Inl (Failure 400 ''Cannot update active task''), st)
          else
            let t1 = t\<lparr>title := (if truthy (up_title rq) then js_trim (the (up_title rq))
                                  else title t),
                       description := (if truthy (up_description rq) then the (up_description rq)
                                       else description t),
                       expiresAt := (case up_expiresAt rq of None \<Rightarrow> expiresAt t | Some e \<Rightarrow> e),
                       tags := (case up_tags rq of None \<Rightarrow> tags t | Some ts \<Rightarrow> map js_trim ts),
                       t_requirements := (case up_requirements rq of
                                            None \<Rightarrow> t_requirements t
                                          | Some i \<Rightarrow> requirements_of (Some i))\<rparr>
            in if \<not> schema_valid t1 then (Inl (Failure 500 ''ValidationError''), st)
               else (Inr t1, Task_save t1 st))"

subsection \<open>DELETE /:id (cancel)\<close>

definition cancel_task :: "object_id \<Rightarrow> object_id \<Rightarrow> store \<Rightarrow> (failure + unit) \<times> store" where
  "cancel_task userId taskId st =
     (case Task_findById st taskId of
        None \<Rightarrow> (Inl (Failure 404 ''Task not found''), st)
      | Some t \<Rightarrow>
          if creator t \<noteq> userId then (Inl (Failure 403 ''Not authorized''), st)
          else if \<exists>p \<in> set (t_participants t). tp_status p = CLAIMED
            then (Inl (Failure 400 ''Cannot cancel task with claimed rewards''), st)
          else (Inr (), Task_save (t\<lparr>t_status := CANCELLED\<rparr>) st))"

section \<open>Sequences of requests\<close>

text \<open>
  What lies outside the store during one request: the identity provider, the chain, the
  paymaster, the clock and the configured contract address.
\<close>

record world =
  w_api :: snapchain
  w_contract :: contract
  w_sponsor :: sponsor
  w_now :: date
  w_contractAddress :: string

datatype request =
    CreateTask object_id create_request
  | UpdateTask object_id object_id update_request
  | CancelTask object_id object_id
  | Join object_id object_id
  | SubmitProof object_id object_id "proof_data option"
  | Claim object_id object_id
  | ConfirmClaim object_id object_id "string option"
  | Verify object_id object_id bool "string option"
  | ReVerify object_id object_id

fun step :: "world \<times> request \<Rightarrow> store \<Rightarrow> store" where
  "step (w, CreateTask uid rq) st = snd (create_task (w_api w) (w_contract w) uid rq st)"
| "step (w, UpdateTask uid tid rq) st = snd (update_task uid tid rq st)"
| "step (w, CancelTask uid tid) st = snd (cancel_task uid tid st)"
| "step (w, Join uid tid) st = snd (join (w_api w) (w_now w) uid tid st)"
| "step (w, SubmitProof uid tid pd) st = snd (submit_proof (w_api w) uid tid pd st)"
| "step (w, Claim uid tid) st =
     snd (claim (w_contract w) (w_sponsor w) (w_contractAddress w) uid tid st)"
| "step (w, ConfirmClaim uid tid tx) st = snd (confirm_claim (w_now w) uid tid tx st)"
| "step (w, Verify uid pid approved notes) st = snd (verify uid pid approved notes st)"
| "step (w, ReVerify uid pid) st = snd (re_verify (w_api w) uid pid st)"

fun run :: "(world \<times> request) list \<Rightarrow> store \<Rightarrow> store" where
  "run [] st = st"
| "run (r # rs) st = run rs (step r st)"

section \<open>Invariants and a worked scenario\<close>

text \<open>The capacity invariant of the Task collection.\<close>

definition capacity_ok :: "store \<Rightarrow> bool" where
  "capacity_ok st = list_all (\<lambda>t. currentParticipants t \<le> maxParticipants t) (tasks st)"

text \<open>No task has an entry in its embedded \<open>participants\<close> array.\<close>

definition embedded_empty :: "store \<Rightarrow> bool" where
  "embedded_empty st = list_all (\<lambda>t. t_participants t = []) (tasks st)"

text \<open>
  The scenario of the specification: Carol funds a task with one slot, Alice joins, proves,
  claims and confirms. The provider below knows every handle and reports that everybody
  follows the account with fid 7.
\<close>

definition carol :: user where
  "carol = \<lparr>u_id = 1, fid = 100, walletAddress = ''0xCA201'', isVerified = True,
            totalTasksCreated = 0, totalTasksCompleted = 0, totalRewardsEarned = ''0'',
            reputation = 0\<rparr>"

definition alice :: user where
  "alice = \<lparr>u_id = 2, fid = 200, walletAddress = ''0xA11CE'', isVerified = False,
            totalTasksCreated = 0, totalTasksCompleted = 0, totalRewardsEarned = ''0'',
            reputation = 0\<rparr>"

definition provider_up :: snapchain where
  "provider_up =
     \<lparr>api_user_by_username = (\<lambda>n. HttpOk (Some \<lparr>fc_fid = Some 7, follower_count = 5\<rparr>)),
      api_user = (\<lambda>f. HttpOk (Some \<lparr>fc_fid = Some f, follower_count = 5\<rparr>)),
      api_cast = (\<lambda>h. HttpOk True),
      api_cast_likes = (\<lambda>h l. HttpOk (Some [])),
      api_cast_recasts = (\<lambda>h l. HttpOk (Some [])),
      api_user_following =
        (\<lambda>f l. HttpOk (Some [Some \<lparr>fc_fid = Some 7, follower_count = 5\<rparr>])),
      api_channel_members = (\<lambda>ch l. HttpOk (Some [])),
      api_channel_followers = (\<lambda>ch l. HttpOk (Some []))\<rparr>"




definition sign_demo :: "nat option \<Rightarrow> string \<Rightarrow> string \<Rightarrow> string option" where
  "sign_demo i a r = Some (''sig/'' @ a @ ''/'' @ r)"

definition chain_up :: contract where
  "chain_up =
     \<lparr>getBalance = Some 2000000000000000,
      estimateGas = (\<lambda>n v. Some 100000),
      sendCreateTask = (\<lambda>n v g. Some \<lparr>rc_hash = ''0xfeed'', rc_blockNumber = 12,
                                        rc_gasUsed = 90000, rc_taskCreated = Some 7\<rparr>),
      hasDevClaimed = (\<lambda>i a. Some False),
      signMessage = sign_demo\<rparr>"

definition chain_claimed :: contract where
  "chain_claimed = chain_up\<lparr>hasDevClaimed := (\<lambda>i a. Some True)\<rparr>"

definition chain_broke :: contract where
  "chain_broke = chain_up\<lparr>getBalance := Some 5\<rparr>"

definition sponsor_off :: sponsor where
  "sponsor_off =
     \<lparr>enabled = False, entryPointAddress = ''0x5ff137d4b0fdcd49dca30c7cf57e578a026d2789'',
      encodeClaimReward = (\<lambda>i r g. Some ''0xc1a1''), paymaster = (\<lambda>uo. PmThrows)\<rparr>"

definition sponsor_unreachable :: sponsor where
  "sponsor_unreachable = sponsor_off\<lparr>enabled := True\<rparr>"

text \<open>A paymaster whose answer is the body \<open>{"result": {}}\<close>.\<close>

definition sponsor_empty_result :: sponsor where
  "sponsor_empty_result =
     sponsor_off\<lparr>enabled := True,
       paymaster := (\<lambda>uo. PmBody False
         (Some \<lparr>pm_callGasLimit = None, pm_verificationGasLimit = None,
                pm_preVerificationGas = None, pm_maxFeePerGas = None,
                pm_maxPriorityFeePerGas = None, pm_paymasterAndData = None\<rparr>))\<rparr>"

definition follow_request :: create_request where
  "follow_request =
     \<lparr>rq_title = ''Follow dwr'', rq_description = ''Follow the account'',
      rq_taskType = Some FOLLOW_USER,
      rq_targetData = Some \<lparr>userToFollow = Some ''dwr'', castHashToLike = None,
                             castHashToRecast = None, channelToJoin = None\<rparr>,
      rq_maxParticipants = Some 1, rq_expiresAt = Some 1000, rq_tags = None,
      rq_requirements = None, rq_rewardPerParticipant = Some ''5''\<rparr>"

definition follow_task :: task where
  "follow_task =
     \<lparr>t_id = 1, creator = 1, title = ''Follow dwr'', description = ''Follow the account'',
      taskType = FOLLOW_USER,
      targetData = \<lparr>userToFollow = Some ''dwr'', castHashToLike = None,
                    castHashToRecast = None, channelToJoin = None\<rparr>,
      rewardPerParticipant = ''1000000000000000'', maxParticipants = 1,
      currentParticipants = 0, totalFunding = ''1000000000000000'',
      contractTaskId = Some 7, t_status = ACTIVE, expiresAt = 1000, tags = [],
      t_requirements = \<lparr>minimumFollowers = 0, mustBeVerified = False\<rparr>,
      t_participants = [], t_transactionHash = Some ''0xfeed''\<rparr>"

definition follow_result :: create_result where
  "follow_result = \<lparr>cr_taskId = 7, cr_transactionHash = ''0xfeed'', cr_blockNumber = 12,
                     cr_gasUsed = ''90000''\<rparr>"

definition demo_proof :: proof_data where
  "demo_proof = \<lparr>screenshotUrl = None, pd_transactionHash = None,
                  warpcastUrl = Some ''https://warpcast.com/alice'', additionalNotes = None\<rparr>"

definition p_pending :: participant where
  "p_pending = new_participant 1 2 1"

definition p_proved :: participant where
  "p_proved = p_pending\<lparr>proofSubmitted := True, proofData := Some demo_proof\<rparr>"

definition p_verified :: participant where
  "p_verified = p_proved\<lparr>p_status := VERIFIED,
                          verificationNotes := Some ''Auto-verified via Snapchain API''\<rparr>"

definition p_signed :: participant where
  "p_signed = p_verified\<lparr>claimSignature := Some ''sig/0xA11CE/1000000000000000'',
                          rewardAmount := ''1000000000000000''\<rparr>"

definition p_claimed :: participant where
  "p_claimed = p_signed\<lparr>p_status := CLAIMED, claimedAt := Some 700,
                        p_transactionHash := Some ''0xabc''\<rparr>"

definition store_empty :: store where
  "store_empty = \<lparr>tasks = [], participants = [], users = [carol, alice]\<rparr>"

definition store_active :: store where
  "store_active = \<lparr>tasks = [follow_task], participants = [],
                    users = [carol\<lparr>totalTasksCreated := 1\<rparr>, alice]\<rparr>"

definition store_joined :: store where
  "store_joined = store_active\<lparr>tasks := [follow_task\<lparr>currentParticipants := 1\<rparr>],
                               participants := [p_pending]\<rparr>"

definition store_proved :: store where
  "store_proved = store_joined\<lparr>participants := [p_proved]\<rparr>"

definition store_verified :: store where
  "store_verified = store_joined\<lparr>participants := [p_verified]\<rparr>"

definition store_signed :: store where
  "store_signed = store_joined\<lparr>participants := [p_signed]\<rparr>"

definition store_claimed :: store where
  "store_claimed =
     store_joined\<lparr>participants := [p_claimed],
       users := [carol\<lparr>totalTasksCreated := 1\<rparr>,
                 alice\<lparr>totalTasksCompleted := 1, reputation := 10,
                       totalRewardsEarned := ''1000000000000000''\<rparr>]\<rparr>"

definition p_rejected :: participant where
  "p_rejected = p_proved\<lparr>p_status := REJECTED, verificationNotes := Some []\<rparr>"

definition store_rejected :: store where
  "store_rejected = store_joined\<lparr>participants := [p_rejected]\<rparr>"

text \<open>The same store with a JOIN_CHANNEL task in place of the follow task.\<close>

definition channel_task :: task where
  "channel_task =
     follow_task\<lparr>taskType := JOIN_CHANNEL,
       targetData := \<lparr>userToFollow = None, castHashToLike = None, castHashToRecast = None,
                      channelToJoin = Some ''memes''\<rparr>,
       currentParticipants := 1\<rparr>"

definition store_channel :: store where
  "store_channel = store_joined\<lparr>tasks := [channel_task]\<rparr>"

definition world_up :: world where
  "world_up = \<lparr>w_api = provider_up, w_contract = chain_up, w_sponsor = sponsor_off,
                w_now = 500, w_contractAddress = ''0xC0DE''\<rparr>"

definition world_later :: world where
  "world_later = world_up\<lparr>w_now := 700\<rparr>"

section \<open>Basic facts\<close>

lemma fold_max_ge: "m \<le> fold max xs (m::nat)"
  by (induction xs arbitrary: m) (auto intro: order_trans [OF max.cobounded2])

lemma fold_max_mem: "x \<in> set xs \<Longrightarrow> x \<le> fold max xs (m::nat)"
proof (induction xs arbitrary: m)
  case Nil
  then show ?case by simp
next
  case (Cons y ys)
  show ?case
  proof (cases "x = y")
    case True
    have "max y m \<le> fold max ys (max y m)" by (rule fold_max_ge)
    with True show ?thesis by simp
  next
    case False
    with Cons show ?thesis by simp
  qed
qed

lemma fresh_id_notin: "fresh_id ids \<notin> set ids"
proof
  assume "fresh_id ids \<in> set ids"
  then have "fresh_id ids \<le> fold max ids 0" by (rule fold_max_mem)
  then show False by (simp add: fresh_id_def)
qed

lemma digit_of_digit_char: "digit_of (digit_char d) = Some (d mod 10)"
proof -
  define m where "m = d mod 10"
  have "m < 10" by (simp add: m_def)
  then have "m = 0 \<or> m = 1 \<or> m = 2 \<or> m = 3 \<or> m = 4 \<or> m = 5 \<or> m = 6 \<or> m = 7 \<or> m = 8 \<or> m = 9"
    by presburger
  then have "digit_of (''0123456789'' ! m) = Some m"
    by (elim disjE) (simp_all add: digit_of_def)
  then show ?thesis by (simp add: digit_char_def m_def)
qed

lemma digit_char_cases:
  "digit_char d \<in> set ''0123456789''"
proof -
  have "d mod 10 < length ''0123456789''" by simp
  then show ?thesis unfolding digit_char_def by (rule nth_mem)
qed

lemma parse_digits_snoc:
  "parse_digits radix acc (xs @ [ch]) =
     (case parse_digits radix acc xs of None \<Rightarrow> None
      | Some v \<Rightarrow> (case digit_of ch of None \<Rightarrow> None
                   | Some d \<Rightarrow> if d < radix then Some (radix * v + d) else None))"
  by (induction xs arbitrary: acc) (auto split: option.splits)

lemma toString_nonempty: "toString n \<noteq> []"
  by (subst toString.simps) simp

lemma set_toString: "set (toString n) \<subseteq> set ''0123456789''"
proof (induction n rule: toString.induct)
  case (1 n)
  show ?case
  proof (cases "n < 10")
    case True
    then show ?thesis using digit_char_cases [of n] by (subst toString.simps) simp
  next
    case False
    with 1 have "set (toString (n div 10)) \<subseteq> set ''0123456789''" by simp
    with False show ?thesis using digit_char_cases [of "n mod 10"]
      by (subst toString.simps) simp
  qed
qed

lemma parse_toString: "parse_digits 10 0 (toString n) = Some n"
proof (induction n rule: toString.induct)
  case (1 n)
  show ?case
  proof (cases "n < 10")
    case True
    then show ?thesis
      by (simp add: toString.simps [of n] digit_of_digit_char)
  next
    case False
    with 1 have "parse_digits 10 0 (toString (n div 10)) = Some (n div 10)"
      by simp
    with False show ?thesis
      by (simp add: toString.simps [of n] parse_digits_snoc digit_of_digit_char)
  qed
qed

lemma strip_code_printable:
  assumes "printable ch"
  shows "strip_code white_space (ch # cs) = None"
proof -
  have "\<not> (w \<noteq> [] \<and> take (length w) (ch # cs) = w)" if "w \<in> set white_space" for w
    using that assms by (auto simp: white_space_def printable_def)
  then show ?thesis by (simp add: strip_code_def find_None_iff)
qed

lemma strip_code_rev_printable:
  assumes "printable ch"
  shows "strip_code (map rev white_space) (ch # cs) = None"
proof -
  have "\<forall>w \<in> set white_space. w = [] \<or> take (length w) (ch # cs) \<noteq> rev w"
    using assms by (auto simp: white_space_def printable_def)
  then show ?thesis by (simp add: strip_code_def find_None_iff)
qed

lemma js_trim_printable:
  assumes "x \<noteq> []" "printable (hd x)" "printable (last x)"
  shows "js_trim x = x"
proof -
  from assms(1) obtain ch cs where x: "x = ch # cs" by (cases x) auto
  with assms(2) have "strip_code white_space x = None" by (simp add: strip_code_printable)
  then have a: "trim_start x = x" by (simp add: trim_start_def trim_codes.simps [of _ x])
  from assms(1) have r: "rev x = last x # rev (butlast x)"
    by (metis append_butlast_last_id rev_eq_Cons_iff rev_rev_ident)
  have "strip_code (map rev white_space) (rev x) = None"
    unfolding r using assms(3) by (rule strip_code_rev_printable)
  then have "trim_end x = x" by (simp add: trim_end_def trim_codes.simps [of _ "rev x"])
  with a show ?thesis by (simp add: js_trim_def)
qed

lemma printable_digit: "ch \<in> set ''0123456789'' \<Longrightarrow> printable ch"
  by (auto simp: printable_def)

lemma js_trim_toString: "js_trim (toString n) = toString n"
proof (rule js_trim_printable)
  show "toString n \<noteq> []" by (rule toString_nonempty)
  then have "hd (toString n) \<in> set (toString n)" "last (toString n) \<in> set (toString n)" by simp_all
  with set_toString [of n] show "printable (hd (toString n))" "printable (last (toString n))"
    by (auto intro!: printable_digit)
qed

lemma BigInt_of_toString: "BigInt (toString n) = Some (int n)"
proof -
  let ?t = "toString n"
  have ne: "?t \<noteq> []" by (rule toString_nonempty)
  have dg: "set ?t \<subseteq> set ''0123456789''" by (rule set_toString)
  have no2: "take 2 ?t \<noteq> [a, b]" if "b \<notin> set ''0123456789''" for a b
  proof
    assume "take 2 ?t = [a, b]"
    then have "b \<in> set (take 2 ?t)" by simp
    then have "b \<in> set ?t" by (rule in_set_takeD)
    with dg that show False by auto
  qed
  have no1: "take 1 ?t \<noteq> [a]" if "a \<notin> set ''0123456789''" for a
  proof
    assume "take 1 ?t = [a]"
    then have "a \<in> set (take 1 ?t)" by simp
    then have "a \<in> set ?t" by (rule in_set_takeD)
    with dg that show False by auto
  qed
  show ?thesis
    using ne no2 [of "CHR ''x''"] no2 [of "CHR ''X''"] no2 [of "CHR ''o''"] no2 [of "CHR ''O''"]
      no2 [of "CHR ''b''"] no2 [of "CHR ''B''"] no1 [of "CHR ''-''"] no1 [of "CHR ''+''"]
    by (simp add: BigInt_def js_trim_toString digits_def parse_toString)
qed

lemma toString_bigint_nonneg: "0 \<le> i \<Longrightarrow> toString_bigint i = toString (nat i)"
  by (simp add: toString_bigint_def)

lemma toString_reward: "toString 1000000000000000 = ''1000000000000000''"
  by (simp add: toString.simps digit_char_def)

lemma BigInt_reward: "BigInt ''1000000000000000'' = Some 1000000000000000"
  using BigInt_of_toString [of 1000000000000000] by (simp add: toString_reward)

lemma toString_0: "toString 0 = ''0''"
  by (simp add: toString.simps digit_char_def)

lemma BigInt_0: "BigInt ''0'' = Some 0"
  using BigInt_of_toString [of 0] by (simp add: toString_0)

lemma to_Number_small: "n < 2 ^ 53 \<Longrightarrow> to_Number n = n"
  by (simp add: to_Number_def)

lemma to_Number_7: "to_Number (unat (7 :: 256 word)) = 7"
  by (simp add: to_Number_def)

lemma to_Number_round: "to_Number (2 ^ 53 + 1) = 2 ^ 53" "to_Number (2 ^ 53 + 3) = 2 ^ 53 + 4"
  by (simp_all add: to_Number_def bit_count.simps Let_def)

lemma BigInt_examples:
  "BigInt '' 0x1F '' = Some 31" "BigInt ''-12'' = Some (- 12)" "BigInt '''' = Some 0"
  "BigInt ''1e3'' = None" "BigInt ''0x'' = None" "BigInt ''+-1'' = None"
  by (simp_all add: BigInt_def js_trim_def trim_start_def trim_end_def trim_codes.simps
        strip_code_def white_space_def digits_def digit_of_def)

lemma js_trim_examples:
  "js_trim [CHR 0xC2, CHR 0xA0] = []" "js_trim '' a b  '' = ''a b''"
  "js_length [CHR 0xC3, CHR 0xA9, CHR ''x''] = 2"
  by (simp_all add: js_trim_def trim_start_def trim_end_def trim_codes.simps
        strip_code_def white_space_def js_length_def code_units_def)

lemma find_None_fresh: "\<forall>x \<in> set xs. f x \<noteq> i \<Longrightarrow> find (\<lambda>x. f x = i) xs = None"
  by (induction xs) auto

lemma map_upd_fresh: "\<forall>x \<in> set xs. f x \<noteq> i \<Longrightarrow> map (\<lambda>x. if f x = i then y else x) xs = xs"
  by (induction xs) auto

lemma find_append:
  "find P (xs @ ys) = (case find P xs of None \<Rightarrow> find P ys | Some x \<Rightarrow> Some x)"
  by (induction xs) auto

lemma tasks_User_update [simp]: "tasks (User_update i f st) = tasks st"
  by (simp add: User_update_def)

lemma participants_User_update [simp]: "participants (User_update i f st) = participants st"
  by (simp add: User_update_def)

lemma Task_findById_created:
  assumes "t_id t = fresh_id (map t_id (tasks st))" and "t_id t1 = t_id t"
  shows "Task_findById (User_update u f (Task_save t1 (Task_insert t st))) (t_id t) = Some t1"
proof -
  have fr: "\<forall>x \<in> set (tasks st). t_id x \<noteq> t_id t"
    using fresh_id_notin [of "map t_id (tasks st)"] assms(1) by (auto simp: image_iff)
  then have "map (\<lambda>x. if t_id x = t_id t then t1 else x) (tasks st) = tasks st"
    by (rule map_upd_fresh)
  moreover have "find (\<lambda>x. t_id x = t_id t) (tasks st) = None"
    using fr by (rule find_None_fresh)
  ultimately show ?thesis
    using assms(2) by (simp add: Task_findById_def Task_save_def Task_insert_def find_append)
qed

section \<open>The scenario, step by step\<close>

lemmas store_defs = Task_findById_def User_findById_def Participant_findById_def
  Participant_findOne_def Task_insert_def Task_save_def Task_findByIdAndDelete_def
  Participant_insert_def Participant_save_def User_update_def fresh_id_def Let_def

lemmas scenario_defs = carol_def alice_def follow_request_def follow_task_def
  follow_result_def demo_proof_def p_pending_def p_proved_def p_verified_def p_signed_def
  p_claimed_def store_empty_def store_active_def store_joined_def store_proved_def
  store_verified_def store_signed_def store_claimed_def new_participant_def
  p_rejected_def store_rejected_def channel_task_def store_channel_def

lemma js_trim_title: "js_trim ''Follow dwr'' = ''Follow dwr''"
  by (rule js_trim_printable) (simp_all add: printable_def)

lemma funding_forms:
  assumes "1 \<le> maxP"
  shows "toString_bigint (1000000000000000 * maxP) = toString (1000000000000000 * nat maxP)"
    and "nat (1000000000000000 * maxP) = 1000000000000000 * nat maxP"
  using assms by (simp_all add: toString_bigint_def nat_mult_distrib)

lemma toString_90000: "toString 90000 = ''90000''"
  by (simp add: toString.simps digit_char_def)

lemma scenario_create:
  "create_task provider_up chain_up 1 follow_request store_empty =
     (Inr (follow_task, follow_result), store_active)"
  by (simp add: create_task_def validate_create_def target_error_def getUserByUsername_def
        provider_up_def chain_up_def BigInt_reward toString_reward toString_90000
        js_trim_title js_length_def code_units_def to_Number_small toString_bigint_def
        schema_valid_def requirements_of_def createTaskOnChain_def
        draft_task_def
        store_defs scenario_defs)

lemma scenario_join: "join provider_up 500 2 1 store_active = (Inr p_pending, store_joined)"
  by (simp add: join_def store_defs scenario_defs)

lemma scenario_verify_up: "autoVerifyTask provider_up store_proved p_proved"
  by (simp add: autoVerifyTask_def verifyUserFollowsUser_def getUserByUsername_def
        getUserFollowing_def provider_up_def store_defs scenario_defs)

lemma scenario_submit:
  "submit_proof provider_up 2 1 (Some demo_proof) store_joined =
     (Inr (p_verified, True), store_verified)"
proof -
  have a: "Participant_findOne store_joined 2 1 = Some p_pending"
    by (simp add: store_defs scenario_defs)
  have b: "Participant_save p_proved store_joined = store_proved"
    by (simp add: store_defs scenario_defs)
  have c: "Participant_save p_verified store_proved = store_verified"
    by (simp add: store_defs scenario_defs)
  have d: "p_status p_pending = PENDING" by (simp add: scenario_defs)
  show ?thesis
    using scenario_verify_up a b c d
    by (simp add: submit_proof_def Let_def p_proved_def [symmetric] p_verified_def [symmetric])
qed

lemma scenario_claim:
  "claim chain_up sponsor_off ''0xC0DE'' 2 1 store_verified =
     (Inr \<lparr>cl_signature = ''sig/0xA11CE/1000000000000000'', cl_taskId = Some 7,
           cl_rewardAmount = ''1000000000000000'', cl_contractAddress = ''0xC0DE'',
           cl_sponsoredGas = GasFallback ''Sponsored gas not enabled''
                                         ''You will need ETH for gas fees''\<rparr>,
      store_signed)"
  by (simp add: claim_def hasUserClaimed_def generateClaimSignature_def prepareSponsoredClaim_def
        chain_up_def sign_demo_def sponsor_off_def store_defs scenario_defs)

lemma scenario_confirm:
  "confirm_claim 700 2 1 (Some ''0xabc'') store_signed = (Inr p_claimed, store_claimed)"
  by (simp add: confirm_claim_def BigInt_reward BigInt_0 toString_reward toString_bigint_def
        store_defs scenario_defs)


section \<open>Capacity is an invariant of every request\<close>

lemma find_Some_mem: "find P xs = Some x \<Longrightarrow> x \<in> set xs \<and> P x"
  by (induction xs) (auto split: if_splits)




lemma capacity_ok_User_update [simp]: "capacity_ok (User_update i f st) = capacity_ok st"
  by (simp add: capacity_ok_def)

lemma capacity_ok_Participant_save [simp]: "capacity_ok (Participant_save p st) = capacity_ok st"
  by (simp add: capacity_ok_def Participant_save_def)

lemma capacity_ok_Participant_insert [simp]: "capacity_ok (Participant_insert p st) = capacity_ok st"
  by (simp add: capacity_ok_def Participant_insert_def)














section \<open>Joining a task\<close>


lemma join_not_found:
  "Task_findById st tid = None \<Longrightarrow> join api now uid tid st = (Inl (Failure 404 ''Task not found''), st)"
  by (simp add: join_def)

lemma join_not_active:
  "Task_findById st tid = Some t \<Longrightarrow> t_status t \<noteq> ACTIVE \<Longrightarrow>
   join api now uid tid st = (Inl (Failure 400 ''Task is not active''), st)"
  by (simp add: join_def)


lemma join_expired:
  "Task_findById st tid = Some t \<Longrightarrow> t_status t = ACTIVE \<Longrightarrow>
   currentParticipants t < maxParticipants t \<Longrightarrow> expiresAt t < now \<Longrightarrow>
   join api now uid tid st = (Inl (Failure 400 ''Task has expired''), st)"
  by (simp add: join_def)

lemma join_already:
  "Task_findById st tid = Some t \<Longrightarrow> t_status t = ACTIVE \<Longrightarrow>
   currentParticipants t < maxParticipants t \<Longrightarrow> now \<le> expiresAt t \<Longrightarrow>
   Participant_findOne st uid tid = Some q \<Longrightarrow>
   join api now uid tid st = (Inl (Failure 400 ''Already joined this task''), st)"
  by (simp add: join_def)





section \<open>Requesting a claim\<close>

lemma find_pair_map_upd:
  "find (\<lambda>x. p_user x = uid \<and> p_task x = tid) xs = Some p \<Longrightarrow>
   p_user p1 = uid \<Longrightarrow> p_task p1 = tid \<Longrightarrow>
   find (\<lambda>x. p_user x = uid \<and> p_task x = tid)
        (map (\<lambda>x. if p_id x = p_id p then p1 else x) xs) = Some p1"
  by (induction xs) (auto split: if_splits)

lemma Participant_findOne_save:
  "Participant_findOne st uid tid = Some p \<Longrightarrow> p_user p1 = uid \<Longrightarrow> p_task p1 = tid \<Longrightarrow>
   p_id p1 = p_id p \<Longrightarrow> Participant_findOne (Participant_save p1 st) uid tid = Some p1"
  by (simp add: Participant_findOne_def Participant_save_def find_pair_map_upd)

lemma Participant_findOne_fields:
  "Participant_findOne st uid tid = Some p \<Longrightarrow> p_user p = uid \<and> p_task p = tid"
  by (auto simp: Participant_findOne_def dest: find_Some_mem)

lemma Task_findById_Participant_save [simp]:
  "Task_findById (Participant_save p st) i = Task_findById st i"
  by (simp add: Task_findById_def Participant_save_def)

lemma User_findById_Participant_save [simp]:
  "User_findById (Participant_save p st) i = User_findById st i"
  by (simp add: User_findById_def Participant_save_def)

lemma Participant_save_twice [simp]:
  "Participant_save p (Participant_save p st) = Participant_save p st"
  by (simp add: Participant_save_def comp_def cong: map_cong)

text \<open>What a successful claim did.\<close>

lemma claim_success:
  assumes "claim c s addr uid tid st = (Inr r, st')"
  shows "\<exists>p t u. Participant_findOne st uid tid = Some p \<and> p_status p = VERIFIED \<and>
           claimedAt p = None \<and> Task_findById st (p_task p) = Some t \<and>
           User_findById st (p_user p) = Some u \<and>
           hasDevClaimed c (contractTaskId t) (walletAddress u) = Some False \<and>
           signMessage c (contractTaskId t) (walletAddress u) (rewardPerParticipant t)
             = Some (cl_signature r) \<and>
           st' = Participant_save (p\<lparr>claimSignature := Some (cl_signature r),
                                      rewardAmount := rewardPerParticipant t\<rparr>) st"
  using assms
  by (auto simp: claim_def Let_def hasUserClaimed_def generateClaimSignature_def
           split: option.splits if_splits bool.splits)

lemma claim_eligible:
  assumes "Participant_findOne st uid tid = Some p" "p_status p = VERIFIED" "claimedAt p = None"
    "Task_findById st (p_task p) = Some t" "User_findById st (p_user p) = Some u"
    "hasDevClaimed c (contractTaskId t) (walletAddress u) = Some False"
    "signMessage c (contractTaskId t) (walletAddress u) (rewardPerParticipant t) = Some sg"
  shows "claim c s addr uid tid st =
           (Inr \<lparr>cl_signature = sg, cl_taskId = contractTaskId t,
                 cl_rewardAmount = rewardPerParticipant t, cl_contractAddress = addr,
                 cl_sponsoredGas = sponsoredGas_of
                   (prepareSponsoredClaim s addr (contractTaskId t) (rewardPerParticipant t)
                      sg (walletAddress u))\<rparr>,
            Participant_save (p\<lparr>claimSignature := Some sg,
                                rewardAmount := rewardPerParticipant t\<rparr>) st)"
  using assms
  by (simp add: claim_def Let_def hasUserClaimed_def generateClaimSignature_def)

text \<open>
  C5. When the ledger answers that the pair has already claimed, a claim request for a
  VERIFIED, unconfirmed participant fails with status 400 "Reward already claimed on
  blockchain", whatever the signer and the paymaster would have answered, and the store is
  the one before the request: the participant record is found unchanged.
\<close>

theorem claim_already_claimed_on_chain:
  assumes "Participant_findOne st uid tid = Some p" "p_status p = VERIFIED" "claimedAt p = None"
    "Task_findById st (p_task p) = Some t" "User_findById st (p_user p) = Some u"
    "hasDevClaimed c (contractTaskId t) (walletAddress u) = Some True"
  shows "claim c s addr uid tid st =
           (Inl (Failure 400 ''Reward already claimed on blockchain''), st) \<and>
         Participant_findOne (snd (claim c s addr uid tid st)) uid tid = Some p"
  using assms by (simp add: claim_def hasUserClaimed_def)

theorem claim_already_claimed_on_chain_witness:
  "claim chain_claimed sponsor_off ''0xC0DE'' 2 1 store_verified =
     (Inl (Failure 400 ''Reward already claimed on blockchain''), store_verified) \<and>
   Participant_findOne (snd (claim chain_claimed sponsor_off ''0xC0DE'' 2 1 store_verified)) 2 1
     = Some p_verified \<and>
   p_status p_verified = VERIFIED \<and> claimSignature p_verified = None \<and>
   rewardAmount p_verified = ''0''"
proof -
  have a: "Participant_findOne store_verified 2 1 = Some p_verified"
    by (simp add: store_defs scenario_defs)
  have b: "p_status p_verified = VERIFIED" "claimedAt p_verified = None"
     "claimSignature p_verified = None" "rewardAmount p_verified = ''0''"
    by (simp_all add: scenario_defs)
  have c: "Task_findById store_verified (p_task p_verified) = Some (follow_task\<lparr>currentParticipants := 1\<rparr>)"
    by (simp add: store_defs scenario_defs)
  have d: "User_findById store_verified (p_user p_verified) = Some alice"
    by (simp add: store_defs scenario_defs)
  have e: "hasDevClaimed chain_claimed (contractTaskId (follow_task\<lparr>currentParticipants := 1\<rparr>))
             (walletAddress alice) = Some True"
    by (simp add: chain_claimed_def)
  from claim_already_claimed_on_chain [OF a b(1) b(2) c d e, of sponsor_off "''0xC0DE''"] a b
  show ?thesis by simp
qed

text \<open>
  C4. After a claim request has succeeded, the participant holds the signature it returned.
  A second request for the same participant, with the same signer (whatever the ledger and
  the paymaster answer this time), leaves the store as it is and either fails (the ledger
  reports the reward as claimed, or the ledger call throws) or returns that same signature:
  a second, different signature is never issued.
\<close>

theorem claim_retry_same_signature:
  assumes first: "claim c s addr uid tid st = (Inr r, st')"
    and signer: "signMessage c' = signMessage c"
  shows "(\<exists>p. Participant_findOne st' uid tid = Some p \<and> claimSignature p = Some (cl_signature r)) \<and>
         snd (claim c' s' addr' uid tid st') = st' \<and>
         (case fst (claim c' s' addr' uid tid st') of
            Inl f \<Rightarrow> f = Failure 400 ''Reward already claimed on blockchain'' \<or>
                     f = Failure 500 ''hasDevClaimed failed''
          | Inr r' \<Rightarrow> cl_signature r' = cl_signature r)"
proof -
  from claim_success [OF first] obtain p t u where
    p: "Participant_findOne st uid tid = Some p" "p_status p = VERIFIED" "claimedAt p = None" and
    t: "Task_findById st (p_task p) = Some t" and u: "User_findById st (p_user p) = Some u" and
    sg: "signMessage c (contractTaskId t) (walletAddress u) (rewardPerParticipant t)
           = Some (cl_signature r)" and
    st': "st' = Participant_save (p\<lparr>claimSignature := Some (cl_signature r),
                                     rewardAmount := rewardPerParticipant t\<rparr>) st"
    by blast
  let ?p = "p\<lparr>claimSignature := Some (cl_signature r), rewardAmount := rewardPerParticipant t\<rparr>"
  from p(1) have pf: "p_user p = uid" "p_task p = tid"
    by (simp_all add: Participant_findOne_fields)
  have found: "Participant_findOne st' uid tid = Some ?p"
    unfolding st' using p(1) pf by (intro Participant_findOne_save) simp_all
  have same: "Participant_save ?p st' = st'"
    unfolding st' by simp
  have part1: "\<exists>q. Participant_findOne st' uid tid = Some q \<and> claimSignature q = Some (cl_signature r)"
    using found by simp
  have t': "Task_findById st' (p_task ?p) = Some t" and u': "User_findById st' (p_user ?p) = Some u"
    using t u by (simp_all add: st')
  have sg': "signMessage c' (contractTaskId t) (walletAddress u) (rewardPerParticipant t)
               = Some (cl_signature r)"
    using sg signer by simp
  have upd: "?p\<lparr>claimSignature := Some (cl_signature r), rewardAmount := rewardPerParticipant t\<rparr> = ?p"
    by simp
  show ?thesis
  proof (cases "hasDevClaimed c' (contractTaskId t) (walletAddress u)")
    case None
    then have "claim c' s' addr' uid tid st' = (Inl (Failure 500 ''hasDevClaimed failed''), st')"
      using found p t' u' by (simp add: claim_def hasUserClaimed_def)
    with part1 show ?thesis by simp
  next
    case (Some b)
    show ?thesis
    proof (cases b)
      case True
      with Some have
        "claim c' s' addr' uid tid st' = (Inl (Failure 400 ''Reward already claimed on blockchain''), st')"
        using found p t' u' by (simp add: claim_def hasUserClaimed_def)
      with part1 show ?thesis by simp
    next
      case False
      with Some have h: "hasDevClaimed c' (contractTaskId t) (walletAddress u) = Some False"
        by simp
      have "claim c' s' addr' uid tid st' =
              (Inr \<lparr>cl_signature = cl_signature r, cl_taskId = contractTaskId t,
                 cl_rewardAmount = rewardPerParticipant t, cl_contractAddress = addr',
                 cl_sponsoredGas = sponsoredGas_of
                   (prepareSponsoredClaim s' addr' (contractTaskId t) (rewardPerParticipant t)
                      (cl_signature r) (walletAddress u))\<rparr>,
               Participant_save (?p\<lparr>claimSignature := Some (cl_signature r),
                                      rewardAmount := rewardPerParticipant t\<rparr>) st')"
        using found p(2,3) t' u' h sg'
        by (intro claim_eligible) simp_all
      with part1 same upd show ?thesis by simp
    qed
  qed
qed

theorem claim_retry_same_signature_witness:
  "claim chain_up sponsor_off ''0xC0DE'' 2 1 store_verified =
     (Inr \<lparr>cl_signature = ''sig/0xA11CE/1000000000000000'', cl_taskId = Some 7,
           cl_rewardAmount = ''1000000000000000'', cl_contractAddress = ''0xC0DE'',
           cl_sponsoredGas = GasFallback ''Sponsored gas not enabled''
                                         ''You will need ETH for gas fees''\<rparr>,
      store_signed) \<and>
   signMessage chain_claimed = signMessage chain_up \<and>
   map claimSignature (participants store_signed) = [Some ''sig/0xA11CE/1000000000000000''] \<and>
   claim chain_up sponsor_unreachable ''0xC0DE'' 2 1 store_signed =
     (Inr \<lparr>cl_signature = ''sig/0xA11CE/1000000000000000'', cl_taskId = Some 7,
           cl_rewardAmount = ''1000000000000000'', cl_contractAddress = ''0xC0DE'',
           cl_sponsoredGas = GasFallback ''Paymaster not available for this transaction''
                                         ''You will need ETH for gas fees''\<rparr>,
      store_signed) \<and>
   claim chain_claimed sponsor_off ''0xC0DE'' 2 1 store_signed =
     (Inl (Failure 400 ''Reward already claimed on blockchain''), store_signed)"
proof -
  have sg: "signMessage chain_claimed = signMessage chain_up"
    by (simp add: chain_claimed_def)
  have kept: "snd (claim chain_up sponsor_unreachable ''0xC0DE'' 2 1 store_signed) = store_signed"
    using claim_retry_same_signature [OF scenario_claim refl, of sponsor_unreachable "''0xC0DE''"]
    by simp
  have kept': "snd (claim chain_claimed sponsor_off ''0xC0DE'' 2 1 store_signed) = store_signed"
    using claim_retry_same_signature [OF scenario_claim sg, of sponsor_off "''0xC0DE''"]
    by simp
  have again: "fst (claim chain_up sponsor_unreachable ''0xC0DE'' 2 1 store_signed) =
     Inr \<lparr>cl_signature = ''sig/0xA11CE/1000000000000000'', cl_taskId = Some 7,
           cl_rewardAmount = ''1000000000000000'', cl_contractAddress = ''0xC0DE'',
           cl_sponsoredGas = GasFallback ''Paymaster not available for this transaction''
                                         ''You will need ETH for gas fees''\<rparr>"
    by (simp add: claim_def hasUserClaimed_def generateClaimSignature_def
          prepareSponsoredClaim_def getPaymasterAndData_def chain_up_def sign_demo_def
          sponsor_off_def sponsor_unreachable_def store_defs scenario_defs)
  have refused: "fst (claim chain_claimed sponsor_off ''0xC0DE'' 2 1 store_signed) =
     Inl (Failure 400 ''Reward already claimed on blockchain'')"
    by (simp add: claim_def hasUserClaimed_def chain_claimed_def chain_up_def
          store_defs scenario_defs)
  have stored: "map claimSignature (participants store_signed)
                   = [Some ''sig/0xA11CE/1000000000000000'']"
    by (simp add: store_signed_def p_signed_def)
  from kept again have
    "claim chain_up sponsor_unreachable ''0xC0DE'' 2 1 store_signed =
       (Inr \<lparr>cl_signature = ''sig/0xA11CE/1000000000000000'', cl_taskId = Some 7,
           cl_rewardAmount = ''1000000000000000'', cl_contractAddress = ''0xC0DE'',
           cl_sponsoredGas = GasFallback ''Paymaster not available for this transaction''
                                         ''You will need ETH for gas fees''\<rparr>,
        store_signed)"
    by (simp add: prod_eq_iff)
  moreover from kept' refused have
    "claim chain_claimed sponsor_off ''0xC0DE'' 2 1 store_signed =
       (Inl (Failure 400 ''Reward already claimed on blockchain''), store_signed)"
    by (simp add: prod_eq_iff)
  ultimately show ?thesis using scenario_claim sg stored by simp
qed

section \<open>Creating a task\<close>

text \<open>
  C10. Every task that \<open>create\<close> returns carries the reward \<open>'1000000000000000'\<close>,
  whatever the request says about rewards, and its \<open>totalFunding\<close> is the decimal string of
  1000000000000000 times the validated \<open>maxParticipants\<close>; that task is the one stored.
\<close>

theorem create_task_reward_and_funding:
  assumes "create_task api c userId rq st = (Inr (t, res), st')"
  shows "rewardPerParticipant t = ''1000000000000000'' \<and>
         (\<exists>n. rq_maxParticipants rq = Some n \<and> 1 \<le> n \<and> n \<le> 1000 \<and> maxParticipants t = n \<and>
              totalFunding t = toString (1000000000000000 * nat n) \<and>
              BigInt (totalFunding t) = Some (1000000000000000 * n)) \<and>
         Task_findById st' (t_id t) = Some t"
proof -
  from assms obtain tt maxP expires td where
    v: "validate_create rq = Some (tt, maxP, expires)" and
    td: "rq_targetData rq = Some td"
    by (auto simp: create_task_def split: option.splits)
  from v have n: "rq_maxParticipants rq = Some maxP" "1 \<le> maxP" "maxP \<le> 1000"
    by (auto simp: validate_create_def split: option.splits if_splits)
  define t0 where "t0 = draft_task (fresh_id (map t_id (tasks st))) userId rq tt td maxP expires
                          ''1000000000000000'' (toString (1000000000000000 * nat maxP))"
  from assms v td have
    t: "t = t0\<lparr>contractTaskId := Some (to_Number (unat (cr_taskId res))),
               t_transactionHash := Some (cr_transactionHash res), t_status := ACTIVE\<rparr>" and
    st': "st' = User_update userId (\<lambda>x. x\<lparr>totalTasksCreated := totalTasksCreated x + 1\<rparr>)
                  (Task_save t (Task_insert t0 st))"
    by (auto simp: create_task_def BigInt_reward Let_def t0_def funding_forms [OF n(2)]
             split: option.splits if_splits sum.splits)
  have "Task_findById st' (t_id t0) = Some t"
    unfolding st' by (rule Task_findById_created) (simp_all add: t0_def t draft_task_def)
  moreover have "t_id t = t_id t0" by (simp add: t)
  moreover have "int (1000000000000000 * nat maxP) = 1000000000000000 * maxP"
    using n(2) by simp
  ultimately show ?thesis
    using n by (simp add: t t0_def draft_task_def BigInt_of_toString)
qed

theorem create_task_reward_and_funding_witness:
  "create_task provider_up chain_up 1 follow_request store_empty =
     (Inr (follow_task, follow_result), store_active) \<and>
   rq_rewardPerParticipant follow_request = Some ''5'' \<and>
   rewardPerParticipant follow_task = ''1000000000000000'' \<and>
   totalFunding follow_task = toString (1000000000000000 * 1) \<and>
   BigInt (totalFunding follow_task) = Some 1000000000000000 \<and>
   Task_findById store_active (t_id follow_task) = Some follow_task"
  using create_task_reward_and_funding [OF scenario_create] scenario_create
  by (simp add: follow_request_def BigInt_of_toString)

lemma Task_delete_inserted:
  assumes "t_id t = fresh_id (map t_id (tasks st))"
  shows "Task_findByIdAndDelete (fresh_id (map t_id (tasks st))) (Task_insert t st) = st"
proof -
  have "\<forall>x \<in> set (tasks st). t_id x \<noteq> t_id t"
    using fresh_id_notin [of "map t_id (tasks st)"] assms by (auto simp: image_iff)
  then have "filter (\<lambda>x. t_id x \<noteq> t_id t) (tasks st) = tasks st"
    by (simp add: filter_id_conv)
  then show ?thesis using assms by (simp add: Task_findByIdAndDelete_def Task_insert_def)
qed

lemma Task_save_inserted:
  assumes "t_id t = fresh_id (map t_id (tasks st))" and "t_id t1 = t_id t"
  shows "Task_save t1 (Task_insert t st) = st\<lparr>tasks := tasks st @ [t1]\<rparr>"
proof -
  have "\<forall>x \<in> set (tasks st). t_id x \<noteq> t_id t"
    using fresh_id_notin [of "map t_id (tasks st)"] assms(1) by (auto simp: image_iff)
  then have "map (\<lambda>x. if t_id x = t_id t then t1 else x) (tasks st) = tasks st"
    by (rule map_upd_fresh)
  then show ?thesis using assms(2) by (simp add: Task_save_def Task_insert_def)
qed

lemma t_id_draft_task [simp]: "t_id (draft_task i u rq tt td m e r f) = i"
  by (simp add: draft_task_def)

lemma validate_create_bounds:
  "validate_create rq = Some (tt, maxP, expires) \<Longrightarrow> 1 \<le> maxP \<and> maxP \<le> 1000"
  by (auto simp: validate_create_def split: option.splits if_splits)

lemma create_task_failure_keeps_store:
  assumes "fst (create_task api c uid rq st) = Inl f"
  shows "snd (create_task api c uid rq st) = st"
  using assms
  by (auto simp: create_task_def Let_def Task_delete_inserted
           split: option.splits sum.splits if_splits)

text \<open>What the handler does once the request has passed validation and the schema.\<close>

lemma create_task_escrow:
  assumes v: "validate_create rq = Some (tt, maxP, expires)" and "rq_targetData rq = Some td"
    and "target_error api tt td = None"
    and "schema_valid (draft_task (fresh_id (map t_id (tasks st))) uid rq tt td maxP expires
                    ''1000000000000000'' (toString (1000000000000000 * nat maxP)))"
  shows "create_task api c uid rq st =
           (case createTaskOnChain c maxP (1000000000000000 * nat maxP) of
              Inl err \<Rightarrow> (Inl (Failure 500 ''Failed to create task on blockchain''), st)
            | Inr res \<Rightarrow>
                (Inr ((draft_task (fresh_id (map t_id (tasks st))) uid rq tt td maxP expires
                         ''1000000000000000'' (toString (1000000000000000 * nat maxP)))
                       \<lparr>contractTaskId := Some (to_Number (unat (cr_taskId res))),
                        t_transactionHash := Some (cr_transactionHash res),
                        t_status := ACTIVE\<rparr>, res),
                 User_update uid (\<lambda>x. x\<lparr>totalTasksCreated := totalTasksCreated x + 1\<rparr>)
                   (st\<lparr>tasks := tasks st @
                      [(draft_task (fresh_id (map t_id (tasks st))) uid rq tt td maxP expires
                         ''1000000000000000'' (toString (1000000000000000 * nat maxP)))
                       \<lparr>contractTaskId := Some (to_Number (unat (cr_taskId res))),
                        t_transactionHash := Some (cr_transactionHash res),
                        t_status := ACTIVE\<rparr>]\<rparr>)))"
proof -
  from v have n: "1 \<le> maxP" by (simp add: validate_create_bounds)
  show ?thesis
    using assms
    by (simp add: create_task_def Let_def BigInt_reward funding_forms [OF n]
          Task_delete_inserted Task_save_inserted split: sum.splits)
qed

lemma create_task_success:
  assumes "create_task api c uid rq st = (Inr (t, res), st')"
  shows "createTaskOnChain c (maxParticipants t) (1000000000000000 * nat (maxParticipants t))
           = Inr res \<and>
         contractTaskId t = Some (to_Number (unat (cr_taskId res))) \<and>
         t_transactionHash t = Some (cr_transactionHash res) \<and> t_status t = ACTIVE \<and>
         tasks st' = tasks st @ [t]"
proof -
  from assms obtain tt maxP expires td where
    v: "validate_create rq = Some (tt, maxP, expires)" and
    td: "rq_targetData rq = Some td"
    by (auto simp: create_task_def split: option.splits)
  from assms v td have te: "target_error api tt td = None"
    by (auto simp: create_task_def split: option.splits)
  let ?d = "draft_task (fresh_id (map t_id (tasks st))) uid rq tt td maxP expires
              ''1000000000000000'' (toString (1000000000000000 * nat maxP))"
  from v have n: "1 \<le> maxP" by (simp add: validate_create_bounds)
  from assms v td te have sv: "schema_valid ?d"
    by (auto simp: create_task_def Let_def BigInt_reward funding_forms [OF n]
             split: if_splits)
  from assms create_task_escrow [OF v td te sv, of c] show ?thesis
    by (auto simp: draft_task_def split: sum.splits)
qed

text \<open>
  C8. Creation is atomic with respect to escrow. Once the request has passed validation
  and the schema, so that the DRAFT record is saved, the outcome follows the on-chain call.
  When it fails, the handler deletes that record and answers 500 "Failed to create task on
  blockchain": the store is exactly the one before the request. When it succeeds, the
  handler answers with the task carrying the contract's task id (as the Number the route
  stores), the transaction hash and the status ACTIVE, and the store is the old one with
  exactly that task added and the creator's counter raised. Every failing creation leaves
  the store as it was, and every successful one rests on a successful on-chain call.
\<close>

theorem create_task_escrow_atomic:
  "(validate_create rq = Some (tt, maxP, expires) \<and> rq_targetData rq = Some td \<and>
    target_error api tt td = None \<and>
    schema_valid (draft_task (fresh_id (map t_id (tasks st))) uid rq tt td maxP expires
                    ''1000000000000000'' (toString (1000000000000000 * nat maxP))) \<and>
    createTaskOnChain c maxP (1000000000000000 * nat maxP) = Inl err \<longrightarrow>
      create_task api c uid rq st =
        (Inl (Failure 500 ''Failed to create task on blockchain''), st)) \<and>
   (fst (create_task api c uid rq st) = Inl f \<longrightarrow> snd (create_task api c uid rq st) = st) \<and>
   (validate_create rq = Some (tt, maxP, expires) \<and> rq_targetData rq = Some td \<and>
    target_error api tt td = None \<and>
    schema_valid (draft_task (fresh_id (map t_id (tasks st))) uid rq tt td maxP expires
                    ''1000000000000000'' (toString (1000000000000000 * nat maxP))) \<and>
    createTaskOnChain c maxP (1000000000000000 * nat maxP) = Inr ok \<longrightarrow>
      create_task api c uid rq st =
        (Inr ((draft_task (fresh_id (map t_id (tasks st))) uid rq tt td maxP expires
                 ''1000000000000000'' (toString (1000000000000000 * nat maxP)))
               \<lparr>contractTaskId := Some (to_Number (unat (cr_taskId ok))),
                t_transactionHash := Some (cr_transactionHash ok), t_status := ACTIVE\<rparr>, ok),
         User_update uid (\<lambda>x. x\<lparr>totalTasksCreated := totalTasksCreated x + 1\<rparr>)
           (st\<lparr>tasks := tasks st @
              [(draft_task (fresh_id (map t_id (tasks st))) uid rq tt td maxP expires
                  ''1000000000000000'' (toString (1000000000000000 * nat maxP)))
               \<lparr>contractTaskId := Some (to_Number (unat (cr_taskId ok))),
                t_transactionHash := Some (cr_transactionHash ok),
                t_status := ACTIVE\<rparr>]\<rparr>))) \<and>
   (create_task api c uid rq st = (Inr (t, res), st') \<longrightarrow>
      createTaskOnChain c (maxParticipants t) (1000000000000000 * nat (maxParticipants t))
        = Inr res \<and>
      contractTaskId t = Some (to_Number (unat (cr_taskId res))) \<and>
      t_transactionHash t = Some (cr_transactionHash res) \<and> t_status t = ACTIVE \<and>
      tasks st' = tasks st @ [t])"
proof (intro conjI impI)
  assume a: "validate_create rq = Some (tt, maxP, expires) \<and> rq_targetData rq = Some td \<and>
    target_error api tt td = None \<and>
    schema_valid (draft_task (fresh_id (map t_id (tasks st))) uid rq tt td maxP expires
                    ''1000000000000000'' (toString (1000000000000000 * nat maxP))) \<and>
    createTaskOnChain c maxP (1000000000000000 * nat maxP) = Inl err"
  then have "create_task api c uid rq st =
           (case createTaskOnChain c maxP (1000000000000000 * nat maxP) of
              Inl err \<Rightarrow> (Inl (Failure 500 ''Failed to create task on blockchain''), st)
            | Inr res \<Rightarrow>
                (Inr ((draft_task (fresh_id (map t_id (tasks st))) uid rq tt td maxP expires
                         ''1000000000000000'' (toString (1000000000000000 * nat maxP)))
                       \<lparr>contractTaskId := Some (to_Number (unat (cr_taskId res))),
                        t_transactionHash := Some (cr_transactionHash res),
                        t_status := ACTIVE\<rparr>, res),
                 User_update uid (\<lambda>x. x\<lparr>totalTasksCreated := totalTasksCreated x + 1\<rparr>)
                   (st\<lparr>tasks := tasks st @
                      [(draft_task (fresh_id (map t_id (tasks st))) uid rq tt td maxP expires
                         ''1000000000000000'' (toString (1000000000000000 * nat maxP)))
                       \<lparr>contractTaskId := Some (to_Number (unat (cr_taskId res))),
                        t_transactionHash := Some (cr_transactionHash res),
                        t_status := ACTIVE\<rparr>]\<rparr>)))"
    by (intro create_task_escrow) simp_all
  with a show "create_task api c uid rq st =
        (Inl (Failure 500 ''Failed to create task on blockchain''), st)" by simp
next
  assume "fst (create_task api c uid rq st) = Inl f"
  then show "snd (create_task api c uid rq st) = st" by (rule create_task_failure_keeps_store)
next
  assume a: "validate_create rq = Some (tt, maxP, expires) \<and> rq_targetData rq = Some td \<and>
    target_error api tt td = None \<and>
    schema_valid (draft_task (fresh_id (map t_id (tasks st))) uid rq tt td maxP expires
                    ''1000000000000000'' (toString (1000000000000000 * nat maxP))) \<and>
    createTaskOnChain c maxP (1000000000000000 * nat maxP) = Inr ok"
  then have "create_task api c uid rq st =
           (case createTaskOnChain c maxP (1000000000000000 * nat maxP) of
              Inl err \<Rightarrow> (Inl (Failure 500 ''Failed to create task on blockchain''), st)
            | Inr res \<Rightarrow>
                (Inr ((draft_task (fresh_id (map t_id (tasks st))) uid rq tt td maxP expires
                         ''1000000000000000'' (toString (1000000000000000 * nat maxP)))
                       \<lparr>contractTaskId := Some (to_Number (unat (cr_taskId res))),
                        t_transactionHash := Some (cr_transactionHash res),
                        t_status := ACTIVE\<rparr>, res),
                 User_update uid (\<lambda>x. x\<lparr>totalTasksCreated := totalTasksCreated x + 1\<rparr>)
                   (st\<lparr>tasks := tasks st @
                      [(draft_task (fresh_id (map t_id (tasks st))) uid rq tt td maxP expires
                         ''1000000000000000'' (toString (1000000000000000 * nat maxP)))
                       \<lparr>contractTaskId := Some (to_Number (unat (cr_taskId res))),
                        t_transactionHash := Some (cr_transactionHash res),
                        t_status := ACTIVE\<rparr>]\<rparr>)))"
    by (intro create_task_escrow) simp_all
  with a show "create_task api c uid rq st =
        (Inr ((draft_task (fresh_id (map t_id (tasks st))) uid rq tt td maxP expires
                 ''1000000000000000'' (toString (1000000000000000 * nat maxP)))
               \<lparr>contractTaskId := Some (to_Number (unat (cr_taskId ok))),
                t_transactionHash := Some (cr_transactionHash ok), t_status := ACTIVE\<rparr>, ok),
         User_update uid (\<lambda>x. x\<lparr>totalTasksCreated := totalTasksCreated x + 1\<rparr>)
           (st\<lparr>tasks := tasks st @
              [(draft_task (fresh_id (map t_id (tasks st))) uid rq tt td maxP expires
                  ''1000000000000000'' (toString (1000000000000000 * nat maxP)))
               \<lparr>contractTaskId := Some (to_Number (unat (cr_taskId ok))),
                t_transactionHash := Some (cr_transactionHash ok),
                t_status := ACTIVE\<rparr>]\<rparr>))" by simp
next
  assume a: "create_task api c uid rq st = (Inr (t, res), st')"
  note s = create_task_success [OF a]
  from s show "createTaskOnChain c (maxParticipants t)
                 (1000000000000000 * nat (maxParticipants t)) = Inr res" by simp
  from s show "contractTaskId t = Some (to_Number (unat (cr_taskId res)))" by simp
  from s show "t_transactionHash t = Some (cr_transactionHash res)" by simp
  from s show "t_status t = ACTIVE" by simp
  from s show "tasks st' = tasks st @ [t]" by simp
qed

lemma scenario_create_broke:
  "create_task provider_up chain_broke 1 follow_request store_empty =
     (Inl (Failure 500 ''Failed to create task on blockchain''), store_empty)"
  by (simp add: create_task_def validate_create_def target_error_def getUserByUsername_def
        provider_up_def chain_broke_def chain_up_def BigInt_reward toString_reward
        js_trim_title js_length_def code_units_def toString_bigint_def
        schema_valid_def requirements_of_def createTaskOnChain_def
        draft_task_def store_defs scenario_defs)

theorem create_task_escrow_atomic_witness:
  "createTaskOnChain chain_broke 1 (1000000000000000 * nat 1) = Inl ''Insufficient balance'' \<and>
   create_task provider_up chain_broke 1 follow_request store_empty =
     (Inl (Failure 500 ''Failed to create task on blockchain''), store_empty) \<and>
   tasks store_empty = [] \<and>
   createTaskOnChain chain_up 1 (1000000000000000 * nat 1) = Inr follow_result \<and>
   create_task provider_up chain_up 1 follow_request store_empty =
     (Inr (follow_task, follow_result), store_active) \<and>
   contractTaskId follow_task = Some 7 \<and> t_transactionHash follow_task = Some ''0xfeed'' \<and>
   t_status follow_task = ACTIVE \<and> tasks store_active = tasks store_empty @ [follow_task]"
proof -
  let ?td = "\<lparr>userToFollow = Some ''dwr'', castHashToLike = None,
               castHashToRecast = None, channelToJoin = None\<rparr>"
  let ?d = "draft_task (fresh_id (map t_id (tasks store_empty))) 1 follow_request
              FOLLOW_USER ?td 1 1000 ''1000000000000000'' (toString (1000000000000000 * nat 1))"
  have v: "validate_create follow_request = Some (FOLLOW_USER, 1, 1000)"
    by (simp add: validate_create_def follow_request_def)
  have td: "rq_targetData follow_request = Some ?td"
    by (simp add: follow_request_def)
  have te: "target_error provider_up FOLLOW_USER ?td = None"
    by (simp add: target_error_def getUserByUsername_def provider_up_def)
  have sv: "schema_valid ?d"
    by (simp add: schema_valid_def draft_task_def follow_request_def js_trim_title js_length_def
          code_units_def)
  have ch: "createTaskOnChain chain_broke 1 (1000000000000000 * nat 1) = Inl ''Insufficient balance''"
    by (simp add: createTaskOnChain_def chain_broke_def chain_up_def)
  have ok: "createTaskOnChain chain_up 1 (1000000000000000 * nat 1) = Inr follow_result"
    by (simp add: createTaskOnChain_def chain_up_def follow_result_def toString_90000)
  note a = create_task_escrow_atomic [where rq = follow_request and tt = FOLLOW_USER and maxP = 1
      and expires = 1000 and api = provider_up and st = store_empty and uid = 1
      and c = chain_broke and err = "''Insufficient balance''" and td = ?td]
  from a v td te sv ch have fail:
    "create_task provider_up chain_broke 1 follow_request store_empty =
       (Inl (Failure 500 ''Failed to create task on blockchain''), store_empty)"
    by blast
  note b = create_task_escrow_atomic [where rq = follow_request and tt = FOLLOW_USER and maxP = 1
      and expires = 1000 and api = provider_up and st = store_empty and uid = 1
      and c = chain_up and ok = follow_result and td = ?td]
  have t: "?d\<lparr>contractTaskId := Some (to_Number (unat (cr_taskId follow_result))),
              t_transactionHash := Some (cr_transactionHash follow_result),
              t_status := ACTIVE\<rparr> = follow_task"
    by (simp add: draft_task_def follow_request_def follow_task_def follow_result_def
          js_trim_title toString_reward to_Number_small requirements_of_def store_empty_def
          fresh_id_def)
  have st: "User_update 1 (\<lambda>x. x\<lparr>totalTasksCreated := totalTasksCreated x + 1\<rparr>)
              (store_empty\<lparr>tasks := tasks store_empty @ [follow_task]\<rparr>) = store_active"
    by (simp add: store_defs scenario_defs)
  from b v td te sv ok have
    "create_task provider_up chain_up 1 follow_request store_empty =
       (Inr (?d\<lparr>contractTaskId := Some (to_Number (unat (cr_taskId follow_result))),
              t_transactionHash := Some (cr_transactionHash follow_result),
              t_status := ACTIVE\<rparr>, follow_result),
        User_update 1 (\<lambda>x. x\<lparr>totalTasksCreated := totalTasksCreated x + 1\<rparr>)
          (store_empty\<lparr>tasks := tasks store_empty @
             [?d\<lparr>contractTaskId := Some (to_Number (unat (cr_taskId follow_result))),
              t_transactionHash := Some (cr_transactionHash follow_result),
              t_status := ACTIVE\<rparr>]\<rparr>))"
    by blast
  then have good: "create_task provider_up chain_up 1 follow_request store_empty =
       (Inr (follow_task, follow_result), store_active)"
    unfolding t st .
  have fields: "contractTaskId follow_task = Some 7" "t_transactionHash follow_task = Some ''0xfeed''"
    "t_status follow_task = ACTIVE" "tasks store_active = tasks store_empty @ [follow_task]"
    "tasks store_empty = []"
    by (simp_all add: scenario_defs)
  from fail good ch ok fields show ?thesis by simp
qed

section \<open>Gas sponsorship never blocks a claim\<close>

lemma is_sponsored_iff:
  "is_sponsored (prepareSponsoredClaim s ca tid amt sg ua) \<longleftrightarrow>
     enabled s \<and> (\<exists>cd d. encodeClaimReward s tid amt sg = Some cd \<and>
                          paymaster s (createUserOperation ua cd) = PmBody False (Some d))"
  by (auto simp: prepareSponsoredClaim_def getPaymasterAndData_def Let_def
           split: option.splits paymaster_response.splits if_splits)

lemma sponsoredGas_of_fallback:
  "\<not> is_sponsored sd \<Longrightarrow> \<exists>msg. sponsoredGas_of sd = GasFallback msg ''You will need ETH for gas fees''"
  by (cases sd) simp_all

text \<open>
  C9, as the specification states it, fails for one kind of malformed answer: a paymaster
  body whose \<open>result\<close> is present but carries none of the expected fields (here
  \<open>{"result": {}}\<close>) is taken as a sponsorship, and the claim response says
  \<open>sponsoredGas.enabled = true\<close> with a user operation whose gas fields are undefined.
\<close>

theorem sponsored_on_empty_result_counterexample:
  "paymaster sponsor_empty_result (createUserOperation ''0xA11CE'' ''0xc1a1'') =
     PmBody False (Some \<lparr>pm_callGasLimit = None, pm_verificationGasLimit = None,
                          pm_preVerificationGas = None, pm_maxFeePerGas = None,
                          pm_maxPriorityFeePerGas = None, pm_paymasterAndData = None\<rparr>) \<and>
   is_sponsored (prepareSponsoredClaim sponsor_empty_result ''0xC0DE'' (Some 7)
                   ''1000000000000000'' ''sig/0xA11CE/1000000000000000'' ''0xA11CE'') \<and>
   fst (claim chain_up sponsor_empty_result ''0xC0DE'' 2 1 store_verified) =
     Inr \<lparr>cl_signature = ''sig/0xA11CE/1000000000000000'', cl_taskId = Some 7,
           cl_rewardAmount = ''1000000000000000'', cl_contractAddress = ''0xC0DE'',
           cl_sponsoredGas = GasEnabled
             ((createUserOperation ''0xA11CE'' ''0xc1a1'')
                \<lparr>callGasLimit := None, verificationGasLimit := None,
                 preVerificationGas := None, maxFeePerGas := None,
                 maxPriorityFeePerGas := None, paymasterAndData := None\<rparr>)
             ''0x5ff137d4b0fdcd49dca30c7cf57e578a026d2789''\<rparr>"
  by (simp add: claim_def hasUserClaimed_def generateClaimSignature_def prepareSponsoredClaim_def
        getPaymasterAndData_def chain_up_def sign_demo_def sponsor_off_def
        sponsor_empty_result_def store_defs scenario_defs)

text \<open>
  C9, amended. The negotiator reports \<open>sponsored\<close> exactly when sponsorship is enabled,
  the call data can be encoded and the paymaster's body has no \<open>error\<close> and a \<open>result\<close>;
  so a disabled configuration, a transport failure, an \<open>error\<close> body or a body without
  \<open>result\<close> all give \<open>sponsored: false\<close>. Whatever the negotiator returns, a claim request
  of an eligible participant succeeds: it returns the signature and stores it, and when the
  negotiator is not sponsoring the response carries the non-sponsored fallback.
\<close>

theorem sponsorship_never_blocks_claim:
  "(is_sponsored (prepareSponsoredClaim s ca tid amt sg ua) \<longleftrightarrow>
      enabled s \<and> (\<exists>cd d. encodeClaimReward s tid amt sg = Some cd \<and>
                           paymaster s (createUserOperation ua cd) = PmBody False (Some d))) \<and>
   (Participant_findOne st uid taskId = Some p \<and> p_status p = VERIFIED \<and> claimedAt p = None \<and>
    Task_findById st (p_task p) = Some t \<and> User_findById st (p_user p) = Some u \<and>
    hasDevClaimed c (contractTaskId t) (walletAddress u) = Some False \<and>
    signMessage c (contractTaskId t) (walletAddress u) (rewardPerParticipant t) = Some sigma \<longrightarrow>
      (\<exists>r. claim c s addr uid taskId st =
              (Inr r, Participant_save (p\<lparr>claimSignature := Some sigma,
                                          rewardAmount := rewardPerParticipant t\<rparr>) st) \<and>
           cl_signature r = sigma \<and> cl_rewardAmount r = rewardPerParticipant t \<and>
           (\<not> is_sponsored (prepareSponsoredClaim s addr (contractTaskId t)
                              (rewardPerParticipant t) sigma (walletAddress u)) \<longrightarrow>
              (\<exists>msg. cl_sponsoredGas r = GasFallback msg ''You will need ETH for gas fees''))))"
proof (intro conjI impI)
  show "is_sponsored (prepareSponsoredClaim s ca tid amt sg ua) \<longleftrightarrow>
      enabled s \<and> (\<exists>cd d. encodeClaimReward s tid amt sg = Some cd \<and>
                           paymaster s (createUserOperation ua cd) = PmBody False (Some d))"
    by (rule is_sponsored_iff)
next
  assume a: "Participant_findOne st uid taskId = Some p \<and> p_status p = VERIFIED \<and> claimedAt p = None \<and>
    Task_findById st (p_task p) = Some t \<and> User_findById st (p_user p) = Some u \<and>
    hasDevClaimed c (contractTaskId t) (walletAddress u) = Some False \<and>
    signMessage c (contractTaskId t) (walletAddress u) (rewardPerParticipant t) = Some sigma"
  let ?sd = "prepareSponsoredClaim s addr (contractTaskId t) (rewardPerParticipant t) sigma
               (walletAddress u)"
  let ?r = "\<lparr>cl_signature = sigma, cl_taskId = contractTaskId t,
             cl_rewardAmount = rewardPerParticipant t, cl_contractAddress = addr,
             cl_sponsoredGas = sponsoredGas_of ?sd\<rparr>"
  from a have "claim c s addr uid taskId st =
      (Inr ?r, Participant_save (p\<lparr>claimSignature := Some sigma,
                                   rewardAmount := rewardPerParticipant t\<rparr>) st)"
    by (intro claim_eligible) simp_all
  moreover have "\<not> is_sponsored ?sd \<longrightarrow>
      (\<exists>msg. cl_sponsoredGas ?r = GasFallback msg ''You will need ETH for gas fees'')"
    using sponsoredGas_of_fallback [of ?sd] by simp
  ultimately show "\<exists>r. claim c s addr uid taskId st =
              (Inr r, Participant_save (p\<lparr>claimSignature := Some sigma,
                                          rewardAmount := rewardPerParticipant t\<rparr>) st) \<and>
           cl_signature r = sigma \<and> cl_rewardAmount r = rewardPerParticipant t \<and>
           (\<not> is_sponsored (prepareSponsoredClaim s addr (contractTaskId t)
                              (rewardPerParticipant t) sigma (walletAddress u)) \<longrightarrow>
              (\<exists>msg. cl_sponsoredGas r = GasFallback msg ''You will need ETH for gas fees''))"
    by (intro exI [of _ ?r]) simp
qed

theorem sponsorship_never_blocks_claim_witness:
  "enabled sponsor_unreachable \<and>
   paymaster sponsor_unreachable (createUserOperation ''0xA11CE'' ''0xc1a1'') = PmThrows \<and>
   \<not> is_sponsored (prepareSponsoredClaim sponsor_unreachable ''0xC0DE'' (Some 7)
                     ''1000000000000000'' ''sig/0xA11CE/1000000000000000'' ''0xA11CE'') \<and>
   fst (claim chain_up sponsor_unreachable ''0xC0DE'' 2 1 store_verified) =
     Inr \<lparr>cl_signature = ''sig/0xA11CE/1000000000000000'', cl_taskId = Some 7,
           cl_rewardAmount = ''1000000000000000'', cl_contractAddress = ''0xC0DE'',
           cl_sponsoredGas = GasFallback ''Paymaster not available for this transaction''
                                         ''You will need ETH for gas fees''\<rparr> \<and>
   snd (claim chain_up sponsor_unreachable ''0xC0DE'' 2 1 store_verified) = store_signed"
proof -
  have pm: "enabled sponsor_unreachable"
     "paymaster sponsor_unreachable (createUserOperation ''0xA11CE'' ''0xc1a1'') = PmThrows"
     "encodeClaimReward sponsor_unreachable (Some 7) ''1000000000000000''
        ''sig/0xA11CE/1000000000000000'' = Some ''0xc1a1''"
    by (simp_all add: sponsor_unreachable_def sponsor_off_def)
  let ?t = "follow_task\<lparr>currentParticipants := 1\<rparr>"
  have a: "Participant_findOne store_verified 2 1 = Some p_verified"
    by (simp add: store_defs scenario_defs)
  have b: "p_status p_verified = VERIFIED" "claimedAt p_verified = None"
    by (simp_all add: scenario_defs)
  have c: "Task_findById store_verified (p_task p_verified) = Some ?t"
    by (simp add: store_defs scenario_defs)
  have d: "User_findById store_verified (p_user p_verified) = Some alice"
    by (simp add: store_defs scenario_defs)
  have e: "hasDevClaimed chain_up (contractTaskId ?t) (walletAddress alice) = Some False"
    by (simp add: chain_up_def)
  have f: "signMessage chain_up (contractTaskId ?t) (walletAddress alice) (rewardPerParticipant ?t)
             = Some ''sig/0xA11CE/1000000000000000''"
    by (simp add: chain_up_def sign_demo_def follow_task_def alice_def)
  have g: "contractTaskId ?t = Some 7" "walletAddress alice = ''0xA11CE''"
      "rewardPerParticipant ?t = ''1000000000000000''"
    by (simp_all add: follow_task_def alice_def)
  have h: "Participant_save (p_verified\<lparr>claimSignature := Some ''sig/0xA11CE/1000000000000000'',
               rewardAmount := rewardPerParticipant ?t\<rparr>) store_verified = store_signed"
    by (simp add: store_defs scenario_defs)
  note th = sponsorship_never_blocks_claim [where s = sponsor_unreachable and ca = "''0xC0DE''"
      and tid = "Some 7" and amt = "''1000000000000000''" and sg = "''sig/0xA11CE/1000000000000000''"
      and ua = "''0xA11CE''" and st = store_verified and uid = 2 and taskId = 1
      and p = p_verified and t = ?t and u = alice and c = chain_up
      and sigma = "''sig/0xA11CE/1000000000000000''" and addr = "''0xC0DE''"]
  from th pm have ns: "\<not> is_sponsored (prepareSponsoredClaim sponsor_unreachable ''0xC0DE'' (Some 7)
                     ''1000000000000000'' ''sig/0xA11CE/1000000000000000'' ''0xA11CE'')"
    by simp
  from th a b c d e f obtain r where
    r: "claim chain_up sponsor_unreachable ''0xC0DE'' 2 1 store_verified =
          (Inr r, Participant_save (p_verified\<lparr>claimSignature := Some ''sig/0xA11CE/1000000000000000'',
               rewardAmount := rewardPerParticipant ?t\<rparr>) store_verified)"
    by blast
  have ev: "fst (claim chain_up sponsor_unreachable ''0xC0DE'' 2 1 store_verified) =
     Inr \<lparr>cl_signature = ''sig/0xA11CE/1000000000000000'', cl_taskId = Some 7,
           cl_rewardAmount = ''1000000000000000'', cl_contractAddress = ''0xC0DE'',
           cl_sponsoredGas = GasFallback ''Paymaster not available for this transaction''
                                         ''You will need ETH for gas fees''\<rparr>"
    by (simp add: claim_def hasUserClaimed_def generateClaimSignature_def prepareSponsoredClaim_def
        getPaymasterAndData_def chain_up_def sign_demo_def sponsor_off_def
        sponsor_unreachable_def store_defs scenario_defs)
  from r h have "snd (claim chain_up sponsor_unreachable ''0xC0DE'' 2 1 store_verified) = store_signed"
    by simp
  with pm ns ev show ?thesis by simp
qed

section \<open>Proof submission and automatic verification\<close>

















lemma toString_2r: "toString 2000000000000000 = ''2000000000000000''"
  by (simp add: toString.simps digit_char_def)




section \<open>Where the handlers break the lifecycle\<close>

text \<open>
  C1. The confirmation route checks neither the status nor \<open>claimSignature\<close>. Alice's
  participant, PENDING and without a signature, is confirmed: it becomes CLAIMED with
  \<open>claimedAt\<close> set and her counters go up. Confirming the already CLAIMED participant a
  second time succeeds as well and counts the reward again.
\<close>

theorem confirm_claim_unguarded:
  "Participant_findOne store_joined 2 1 = Some p_pending \<and>
   claimSignature p_pending = None \<and> p_status p_pending = PENDING \<and>
   confirm_claim 700 2 1 (Some ''0xabc'') store_joined =
     (Inr (p_pending\<lparr>p_status := CLAIMED, claimedAt := Some 700,
                      p_transactionHash := Some ''0xabc''\<rparr>),
      store_joined\<lparr>participants :=
                     [p_pending\<lparr>p_status := CLAIMED, claimedAt := Some 700,
                                p_transactionHash := Some ''0xabc''\<rparr>],
                   users := [carol\<lparr>totalTasksCreated := 1\<rparr>,
                             alice\<lparr>totalTasksCompleted := 1, reputation := 10\<rparr>]\<rparr>) \<and>
   Participant_findOne store_claimed 2 1 = Some p_claimed \<and> p_status p_claimed = CLAIMED \<and>
   confirm_claim 800 2 1 (Some ''0xdef'') store_claimed =
     (Inr (p_claimed\<lparr>claimedAt := Some 800, p_transactionHash := Some ''0xdef''\<rparr>),
      store_claimed\<lparr>participants :=
                      [p_claimed\<lparr>claimedAt := Some 800, p_transactionHash := Some ''0xdef''\<rparr>],
                    users := [carol\<lparr>totalTasksCreated := 1\<rparr>,
                              alice\<lparr>totalTasksCompleted := 2, reputation := 20,
                                    totalRewardsEarned := ''2000000000000000''\<rparr>]\<rparr>)"
  by (simp add: confirm_claim_def BigInt_reward BigInt_0 toString_0 toString_2r
        toString_bigint_def store_defs scenario_defs)

lemma scenario_run:
  "run [(world_up, CreateTask 1 follow_request), (world_up, Join 2 1),
        (world_up, SubmitProof 2 1 (Some demo_proof)), (world_up, Claim 2 1),
        (world_later, ConfirmClaim 2 1 (Some ''0xabc''))] store_empty = store_claimed"
  using scenario_create scenario_join scenario_submit scenario_claim scenario_confirm
  by (simp add: world_up_def world_later_def)

lemma embedded_empty_Task_save:
  "embedded_empty st \<Longrightarrow> t_participants t = [] \<Longrightarrow> embedded_empty (Task_save t st)"
  by (auto simp: embedded_empty_def Task_save_def list_all_iff)

lemma embedded_empty_Task_insert:
  "embedded_empty st \<Longrightarrow> t_participants t = [] \<Longrightarrow> embedded_empty (Task_insert t st)"
  by (auto simp: embedded_empty_def Task_insert_def list_all_iff)

lemma embedded_empty_Task_delete:
  "embedded_empty st \<Longrightarrow> embedded_empty (Task_findByIdAndDelete i st)"
  by (auto simp: embedded_empty_def Task_findByIdAndDelete_def list_all_iff)

lemma embedded_empty_User_update [simp]: "embedded_empty (User_update i f st) = embedded_empty st"
  by (simp add: embedded_empty_def)

lemma embedded_empty_Participant_save [simp]:
  "embedded_empty (Participant_save p st) = embedded_empty st"
  by (simp add: embedded_empty_def Participant_save_def)

lemma embedded_empty_Participant_insert [simp]:
  "embedded_empty (Participant_insert p st) = embedded_empty st"
  by (simp add: embedded_empty_def Participant_insert_def)

lemma embedded_empty_found:
  "embedded_empty st \<Longrightarrow> Task_findById st i = Some t \<Longrightarrow> t_participants t = []"
  by (auto simp: embedded_empty_def Task_findById_def list_all_iff dest: find_Some_mem)

lemma embedded_empty_step: "embedded_empty st \<Longrightarrow> embedded_empty (step r st)"
proof -
  assume a: "embedded_empty st"
  obtain w q where r: "r = (w, q)" by (cases r)
  show ?thesis
  proof (cases q)
    case (CreateTask uid rq)
    with a r show ?thesis
      by (auto simp: create_task_def Let_def draft_task_def
               intro!: embedded_empty_Task_save embedded_empty_Task_insert
                       embedded_empty_Task_delete
               split: option.splits sum.splits)
  next
    case (UpdateTask uid tid rq)
    with a r show ?thesis
      by (auto simp: update_task_def Let_def intro!: embedded_empty_Task_save
               dest: embedded_empty_found split: option.splits)
  next
    case (CancelTask uid tid)
    with a r show ?thesis
      by (auto simp: cancel_task_def intro!: embedded_empty_Task_save
               dest: embedded_empty_found split: option.splits)
  next
    case (Join uid tid)
    with a r show ?thesis
      by (auto simp: join_def Let_def intro!: embedded_empty_Task_save
               dest: embedded_empty_found split: option.splits)
  next
    case (SubmitProof uid tid pd)
    with a r show ?thesis
      by (auto simp: submit_proof_def Let_def split: option.splits)
  next
    case (Claim uid tid)
    with a r show ?thesis
      by (auto simp: claim_def Let_def split: option.splits bool.splits)
  next
    case (ConfirmClaim uid tid tx)
    with a r show ?thesis
      by (auto simp: confirm_claim_def Let_def split: option.splits)
  next
    case (Verify uid pid ok nts)
    with a r show ?thesis
      by (auto simp: verify_def Let_def split: option.splits)
  next
    case (ReVerify uid pid)
    with a r show ?thesis
      by (auto simp: re_verify_def Let_def split: option.splits)
  qed
qed

lemma embedded_empty_run: "embedded_empty st \<Longrightarrow> embedded_empty (run rs st)"
  by (induction rs arbitrary: st) (simp_all add: embedded_empty_step)

text \<open>
  From a store whose tasks have no embedded entries (the empty collection, for one), every
  cancel request of the creator succeeds, whatever the Participant collection holds.
\<close>

lemma cancel_task_by_creator:
  assumes "embedded_empty st" and "Task_findById (run rs st) tid = Some t" and "creator t = uid"
  shows "cancel_task uid tid (run rs st) =
           (Inr (), Task_save (t\<lparr>t_status := CANCELLED\<rparr>) (run rs st))"
proof -
  have "embedded_empty (run rs st)" using assms(1) by (rule embedded_empty_run)
  then have "t_participants t = []" using assms(2) by (rule embedded_empty_found)
  then show ?thesis using assms(2,3) by (simp add: cancel_task_def)
qed

text \<open>
  C2. The cancel route looks for CLAIMED entries in the array \<open>participants\<close> embedded in
  the task, which no route ever writes: participants live in their own collection. After
  the whole scenario Alice's participant is CLAIMED, the embedded array is empty, and
  Carol's cancel request succeeds and sets the task to CANCELLED.
\<close>

theorem cancel_task_ignores_claimed_participants:
  "run [(world_up, CreateTask 1 follow_request), (world_up, Join 2 1),
        (world_up, SubmitProof 2 1 (Some demo_proof)), (world_up, Claim 2 1),
        (world_later, ConfirmClaim 2 1 (Some ''0xabc''))] store_empty = store_claimed \<and>
   map (\<lambda>p. (p_task p, p_status p)) (participants store_claimed) = [(1, CLAIMED)] \<and>
   map (\<lambda>t. (t_id t, creator t, t_participants t)) (tasks store_claimed) = [(1, 1, [])] \<and>
   cancel_task 1 1 store_claimed =
     (Inr (), store_claimed\<lparr>tasks := [follow_task\<lparr>currentParticipants := 1,
                                                 t_status := CANCELLED\<rparr>]\<rparr>)"
  using scenario_run
  by (simp add: cancel_task_def store_defs scenario_defs)

text \<open>
  C3. A participant's status does move backward and skip states: a REJECTED participant
  becomes VERIFIED through re-verification, a CLAIMED one falls back to VERIFIED the same
  way, and confirmation takes a PENDING or a REJECTED participant straight to CLAIMED.
\<close>

theorem participant_status_moves_backward:
  "verify 1 1 False None store_proved = (Inr p_rejected, store_rejected) \<and>
   p_status p_rejected = REJECTED \<and>
   re_verify provider_up 1 1 store_rejected =
     (Inr (p_rejected\<lparr>p_status := VERIFIED,
                       verificationNotes := Some ''Re-verified via Snapchain API''\<rparr>, True),
      store_rejected\<lparr>participants :=
        [p_rejected\<lparr>p_status := VERIFIED,
                    verificationNotes := Some ''Re-verified via Snapchain API''\<rparr>]\<rparr>) \<and>
   p_status p_claimed = CLAIMED \<and>
   map p_status (participants (snd (re_verify provider_up 1 1 store_claimed))) = [VERIFIED] \<and>
   p_status p_pending = PENDING \<and>
   map p_status (participants (snd (confirm_claim 700 2 1 (Some ''0xabc'') store_joined))) = [CLAIMED] \<and>
   map p_status (participants (snd (confirm_claim 700 2 1 (Some ''0xabc'') store_rejected))) = [CLAIMED]"
  by (simp add: verify_def re_verify_def confirm_claim_def autoVerifyTask_def
        verifyUserFollowsUser_def getUserByUsername_def getUserFollowing_def provider_up_def
        BigInt_0 BigInt_reward toString_0 toString_reward store_defs scenario_defs)

end

